theory Spec2Isabelle
  imports Complex_Main
begin

section \<open>Python values and string operations\<close>

text \<open>
  Strings are ASCII character lists. The operations below are the \<^verbatim>\<open>str\<close>
  methods the application calls: \<^verbatim>\<open>lower()\<close>, \<^verbatim>\<open>strip()\<close>,
  \<^verbatim>\<open>split()\<close>, \<^verbatim>\<open>split(sep)\<close>, the operator \<^verbatim>\<open>in\<close>
  and the slice \<^verbatim>\<open>xs[:k]\<close>.
\<close>

datatype py_error =
    NameError string
  | ValueError string
  | IndexError
  | TypeError string
  | RequestException string
  | BackendError string

text \<open>A value of a dictionary typed \<^verbatim>\<open>Dict[str, Any]\<close>.\<close>

datatype pyval = PyNone | PyStr string | PyInt int

text \<open>The ASCII characters for which \<^verbatim>\<open>str.isspace\<close> holds.\<close>

definition py_isspace :: "char \<Rightarrow> bool" where
  "py_isspace c =
     (c \<in> set [CHR 0x09, CHR 0x0A, CHR 0x0B, CHR 0x0C, CHR 0x0D,
                CHR 0x1C, CHR 0x1D, CHR 0x1E, CHR 0x1F, CHR 0x20])"

text \<open>
  \<^verbatim>\<open>str.lower\<close> on one ASCII character, bit 0 first: the capital letters are
  the codes \<open>0x41\<close> to \<open>0x5A\<close> (bits 7 to 5 are \<open>010\<close>, the low five bits
  count 1 to 26), and the small letter sets bit 5.
\<close>

fun lower_char :: "char \<Rightarrow> char" where
  "lower_char (Char b0 b1 b2 b3 b4 b5 b6 b7) =
     (if \<not> b7 \<and> b6 \<and> \<not> b5 \<and> (b0 \<or> b1 \<or> b2 \<or> b3 \<or> b4)
         \<and> \<not> (b4 \<and> b3 \<and> (b2 \<or> (b1 \<and> b0)))
      then Char b0 b1 b2 b3 b4 True b6 b7
      else Char b0 b1 b2 b3 b4 b5 b6 b7)"

definition py_lower :: "string \<Rightarrow> string" where
  "py_lower s = map lower_char s"

definition py_strip :: "string \<Rightarrow> string" where
  "py_strip s = rev (dropWhile py_isspace (rev (dropWhile py_isspace s)))"

text \<open>\<^verbatim>\<open>s.startswith(k)\<close> and the substring test \<^verbatim>\<open>k in s\<close>.\<close>

fun startswith :: "string \<Rightarrow> string \<Rightarrow> bool" where
  "startswith s [] = True"
| "startswith [] (k # ks) = False"
| "startswith (c # cs) (k # ks) = (if c = k then startswith cs ks else False)"

fun py_in :: "string \<Rightarrow> string \<Rightarrow> bool" where
  "py_in k [] = (k = [])"
| "py_in k (c # cs) = (if startswith (c # cs) k then True else py_in k cs)"

text \<open>
  \<^verbatim>\<open>s.split()\<close> with no separator: runs of whitespace separate the tokens and
  no empty token is produced. The first argument is the token being read.
\<close>

fun split_acc :: "string \<Rightarrow> string \<Rightarrow> string list" where
  "split_acc cur [] = (if cur = [] then [] else [cur])"
| "split_acc cur (c # cs) =
     (if py_isspace c
      then (if cur = [] then split_acc [] cs else cur # split_acc [] cs)
      else split_acc (cur @ [c]) cs)"

definition py_split :: "string \<Rightarrow> string list" where
  "py_split s = split_acc [] s"

text \<open>
  The slice \<^verbatim>\<open>xs[:k]\<close>: \<^verbatim>\<open>None\<close> keeps the whole list, a negative
  bound counts from the end.
\<close>

definition py_slice_upto :: "'a list \<Rightarrow> int option \<Rightarrow> 'a list" where
  "py_slice_upto xs k =
     (case k of
        None \<Rightarrow> xs
      | Some n \<Rightarrow>
          if 0 \<le> n then take (nat n) xs
          else take (nat (int (length xs) + n)) xs)"

text \<open>
  \<^verbatim>\<open>s.split(sep)\<close> for a separator: the pieces between the occurrences of
  \<open>sep\<close>, found from the left without overlap. Every call of the source passes a
  non-empty literal separator.
\<close>

function split_sep_acc :: "string \<Rightarrow> string \<Rightarrow> string \<Rightarrow> string list" where
  "split_sep_acc sep cur [] = [cur]"
| "split_sep_acc sep cur (c # cs) =
     (if sep \<noteq> [] \<and> startswith (c # cs) sep
      then cur # split_sep_acc sep [] (drop (length sep) (c # cs))
      else split_sep_acc sep (cur @ [c]) cs)"
  by pat_completeness auto
termination
  by (relation "measure (\<lambda>(sep, cur, s). length s)") auto

definition py_split_sep :: "string \<Rightarrow> string \<Rightarrow> string list" where
  "py_split_sep sep s = split_sep_acc sep [] s"

text \<open>Indexing \<^verbatim>\<open>xs[i]\<close> with a literal index \<open>i \<ge> 0\<close>.\<close>

definition py_index :: "'a list \<Rightarrow> nat \<Rightarrow> py_error + 'a" where
  "py_index xs i = (if i < length xs then Inr (xs ! i) else Inl IndexError)"

fun py_join :: "string \<Rightarrow> string list \<Rightarrow> string" where
  "py_join sep [] = []"
| "py_join sep [x] = x"
| "py_join sep (x # y # ys) = x @ sep @ py_join sep (y # ys)"

text \<open>\<^verbatim>\<open>str(n)\<close> for an integer.\<close>

function str_nat :: "nat \<Rightarrow> string" where
  "str_nat n =
     (if n < 10 then [''0123456789'' ! n]
      else str_nat (n div 10) @ [''0123456789'' ! (n mod 10)])"
  by pat_completeness auto
termination
  by (relation "measure id") auto

definition str_int :: "int \<Rightarrow> string" where
  "str_int i = (if i < 0 then ''-'' @ str_nat (nat (- i)) else str_nat (nat i))"

text \<open>
  \<^verbatim>\<open>int(s)\<close> for a string, base 10, as CPython 3.11 reads it. On a string of
  ASCII characters: the whitespace of C's \<^verbatim>\<open>isspace\<close> is skipped on both
  sides (the codes \<open>0x1C\<close> to \<open>0x1F\<close>, which \<^verbatim>\<open>str.strip\<close> removes, are
  not skipped), one sign is allowed, the digits may be separated by single
  underscores, and a literal of more than 4300 digits is refused (the default of
  \<^verbatim>\<open>sys.int_info.default_max_str_digits\<close>). Anything else raises
  \<^verbatim>\<open>ValueError\<close>; the error carries the argument, its message is not modelled.

  On a string with a character outside ASCII, \<^verbatim>\<open>int\<close> also takes the decimal
  digits and the spaces of Unicode. That table belongs to the interpreter and is
  not modelled: what \<^verbatim>\<open>int\<close> gives on such a string is the parameter
  \<open>unicode_int\<close>.
\<close>

definition int_isspace :: "char \<Rightarrow> bool" where
  "int_isspace c = (c \<in> set [CHR 0x09, CHR 0x0A, CHR 0x0B, CHR 0x0C, CHR 0x0D, CHR 0x20])"

definition int_strip :: "string \<Rightarrow> string" where
  "int_strip s = rev (dropWhile int_isspace (rev (dropWhile int_isspace s)))"

fun is_ascii_char :: "char \<Rightarrow> bool" where
  "is_ascii_char (Char b0 b1 b2 b3 b4 b5 b6 b7) = (\<not> b7)"

definition is_ascii :: "string \<Rightarrow> bool" where
  "is_ascii s = list_all is_ascii_char s"

definition is_digit :: "char \<Rightarrow> bool" where
  "is_digit c = (c \<in> set ''0123456789'')"

definition int_max_str_digits :: nat where
  "int_max_str_digits = 4300"

definition digit_of :: "char \<Rightarrow> nat option" where
  "digit_of c = map_of (zip ''0123456789'' [0, 1, 2, 3, 4, 5, 6, 7, 8, 9]) c"

fun parse_digits :: "nat \<Rightarrow> string \<Rightarrow> nat option" where
  "parse_digits acc [] = Some acc"
| "parse_digits acc (c # cs) =
     (if c = CHR ''_'' then
        (case cs of
           [] \<Rightarrow> None
         | d # ds \<Rightarrow>
             (case digit_of d of
                None \<Rightarrow> None
              | Some v \<Rightarrow> parse_digits (acc * 10 + v) ds))
      else
        (case digit_of c of
           None \<Rightarrow> None
         | Some v \<Rightarrow> parse_digits (acc * 10 + v) cs))"

definition parse_unsigned :: "string \<Rightarrow> nat option" where
  "parse_unsigned s =
     (case s of
        [] \<Rightarrow> None
      | c # cs \<Rightarrow> (case digit_of c of None \<Rightarrow> None | Some v \<Rightarrow> parse_digits v cs))"

definition parse_signed :: "string \<Rightarrow> int option" where
  "parse_signed t =
     (case t of
        [] \<Rightarrow> None
      | c # cs \<Rightarrow>
          if c = CHR ''-'' then map_option (\<lambda>n. - int n) (parse_unsigned cs)
          else if c = CHR ''+'' then map_option int (parse_unsigned cs)
          else map_option int (parse_unsigned t))"

definition py_int :: "(string \<Rightarrow> py_error + int) \<Rightarrow> string \<Rightarrow> py_error + int" where
  "py_int unicode_int s =
     (if \<not> is_ascii s then unicode_int s
      else
        (case parse_signed (int_strip s) of
           None \<Rightarrow> Inl (ValueError s)
         | Some v \<Rightarrow>
             if int_max_str_digits < length (filter is_digit (int_strip s))
             then Inl (ValueError s)
             else Inr v))"

text \<open>Truth value of an optional string: \<^verbatim>\<open>None\<close> and \<^verbatim>\<open>""\<close> are false.\<close>

definition or_default :: "string option \<Rightarrow> string \<Rightarrow> string" where
  "or_default v d = (case v of None \<Rightarrow> d | Some t \<Rightarrow> if t = [] then d else t)"

text \<open>
  The retrieval predicate shared by \<^verbatim>\<open>main.get_mock_documents\<close> and
  \<^verbatim>\<open>DocumentRetriever._get_mock_documents\<close>:
  \<^verbatim>\<open>any(keyword in content.lower() or keyword in title.lower()
       for keyword in query_lower.split())\<close>.
\<close>

fun any_keyword :: "string list \<Rightarrow> string \<Rightarrow> string \<Rightarrow> bool" where
  "any_keyword [] content_text title_text = False"
| "any_keyword (keyword # rest) content_text title_text =
     (if py_in keyword (py_lower content_text) then True
      else if py_in keyword (py_lower title_text) then True
      else any_keyword rest content_text title_text)"

section \<open>app/main.py\<close>

record ChatRequest =
  question :: string
  top_k :: "int option"
  max_tokens :: "int option"

record Citation =
  cit_title :: string
  cit_authors :: "string option"
  cit_url :: "string option"
  cit_year :: "int option"
  cit_source :: string

record ChatResponse =
  answer :: string
  citations :: "Citation list"
  sources_used :: int
  confidence :: string

text \<open>An entry of \<^verbatim>\<open>MOCK_DOCUMENTS\<close>: a dictionary with these seven keys.\<close>

record mock_document =
  doc_id :: string
  doc_content :: string
  doc_title :: string
  doc_authors :: string
  doc_url :: string
  doc_year :: int
  doc_source :: string

definition LIGO_CONTENT :: string where
  "LIGO_CONTENT = ''LIGO (Laser Interferometer Gravitational-Wave Observatory) is a large-scale physics experiment designed to detect cosmic gravitational waves. The observatory uses laser interferometry to measure the minute ripples in space-time caused by passing gravitational waves from cataclysmic cosmic events such as merging neutron stars or black holes.''"

definition GRAVITY_SPY_CONTENT :: string where
  "GRAVITY_SPY_CONTENT = ''Gravity Spy is a citizen science project that helps classify glitches in LIGO data. Volunteers examine spectrograms of gravitational wave detector noise to identify and categorize different types of instrumental artifacts that could interfere with gravitational wave detection.''"

definition ALOG_CONTENT :: string where
  "ALOG_CONTENT = ''aLOGs (LIGO Online Glitch Database) contain detailed information about instrumental glitches detected in LIGO data. These logs help scientists understand the sources of noise and improve detector sensitivity by identifying and mitigating systematic issues.''"

definition MOCK_DOCUMENTS :: "mock_document list" where
  "MOCK_DOCUMENTS =
     [\<lparr>doc_id = ''mock-1'',
       doc_content = LIGO_CONTENT,
       doc_title = ''Introduction to LIGO'',
       doc_authors = ''LIGO Scientific Collaboration'',
       doc_url = ''https://www.ligo.org/science.php'',
       doc_year = 2023,
       doc_source = ''LIGO Documentation''\<rparr>,
      \<lparr>doc_id = ''mock-2'',
       doc_content = GRAVITY_SPY_CONTENT,
       doc_title = ''Gravity Spy Citizen Science'',
       doc_authors = ''Gravity Spy Team'',
       doc_url = ''https://www.zooniverse.org/projects/zooniverse/gravity-spy'',
       doc_year = 2024,
       doc_source = ''Zooniverse''\<rparr>,
      \<lparr>doc_id = ''mock-3'',
       doc_content = ALOG_CONTENT,
       doc_title = ''Understanding aLOGs'',
       doc_authors = ''LIGO Detector Characterization Group'',
       doc_url = ''https://alog.ligo-wa.caltech.edu/'',
       doc_year = 2023,
       doc_source = ''aLOG Database''\<rparr>]"

text \<open>
  The loop of \<^verbatim>\<open>get_mock_documents\<close> over a document list; the function
  itself runs it on \<^verbatim>\<open>MOCK_DOCUMENTS\<close> and slices the result.
\<close>

fun filter_docs :: "string list \<Rightarrow> mock_document list \<Rightarrow> mock_document list" where
  "filter_docs keywords [] = []"
| "filter_docs keywords (doc # docs) =
     (if any_keyword keywords (doc_content doc) (doc_title doc)
      then doc # filter_docs keywords docs
      else filter_docs keywords docs)"

definition get_documents_from :: "mock_document list \<Rightarrow> string \<Rightarrow> int option \<Rightarrow> mock_document list" where
  "get_documents_from store query k =
     (let query_lower = py_lower query;
          filtered_docs = filter_docs (py_split query_lower) store
      in py_slice_upto filtered_docs k)"

definition get_mock_documents :: "string \<Rightarrow> int option \<Rightarrow> mock_document list" where
  "get_mock_documents query k = get_documents_from MOCK_DOCUMENTS query k"

definition LIGO_ANSWER :: string where
  "LIGO_ANSWER = ''Based on the LIGO/Gravity Spy knowledge base, LIGO (Laser Interferometer Gravitational-Wave Observatory) is a large-scale physics experiment designed to detect cosmic gravitational waves. The observatory uses laser interferometry to measure minute ripples in space-time caused by passing gravitational waves from cataclysmic cosmic events such as merging neutron stars or black holes.\<newline>\<newline>LIGO consists of two identical detectors located in Livingston, Louisiana, and Hanford, Washington. Each detector uses laser interferometry to detect gravitational waves by measuring tiny changes in the length of 4-kilometer-long arms arranged in an L-shape.''"

definition GRAVITY_SPY_ANSWER :: string where
  "GRAVITY_SPY_ANSWER = ''Gravity Spy is a citizen science project that helps classify glitches in LIGO data. Volunteers examine spectrograms of gravitational wave detector noise to identify and categorize different types of instrumental artifacts that could interfere with gravitational wave detection.\<newline>\<newline>The project uses machine learning combined with human expertise to improve the classification of detector glitches, which helps scientists understand and mitigate sources of noise in the LIGO detectors.''"

definition ALOG_ANSWER :: string where
  "ALOG_ANSWER = ''aLOGs (LIGO Online Glitch Database) contain detailed information about instrumental glitches detected in LIGO data. These logs help scientists understand the sources of noise and improve detector sensitivity by identifying and mitigating systematic issues.\<newline>\<newline>Glitches in LIGO data are instrumental artifacts that can interfere with gravitational wave detection. They can be caused by various sources including environmental factors, detector hardware issues, or external disturbances.''"

text \<open>The bullet character of the last answer, as its three UTF-8 bytes.\<close>

definition BULLET :: string where
  "BULLET = [CHR 0xE2, CHR 0x80, CHR 0xA2]"

definition generic_answer :: "string \<Rightarrow> string" where
  "generic_answer q =
     ''Thank you for your question about '' @ [CHR 0x27] @ q @ [CHR 0x27] @
     ''. Based on the available LIGO and Gravity Spy documentation, I can provide information about:\<newline>\<newline>'' @
     BULLET @ '' **LIGO Technology**: Gravitational wave detectors, interferometry, and sensitivity\<newline>'' @
     BULLET @ '' **Gravity Spy**: Citizen science project for glitch classification  \<newline>'' @
     BULLET @ '' **aLOGs**: LIGO Online Glitch Database for detector characterization\<newline>'' @
     BULLET @ '' **Scientific Results**: Gravitational wave detections and astrophysics\<newline>\<newline>'' @
     ''Could you please be more specific about what aspect you'' @ [CHR 0x27] @ ''d like to learn about?''"

definition generate_mock_response :: "string \<Rightarrow> mock_document list \<Rightarrow> string" where
  "generate_mock_response q documents =
     (let question_lower = py_lower q in
      if py_in ''ligo'' question_lower then LIGO_ANSWER
      else if py_in ''gravity spy'' question_lower then GRAVITY_SPY_ANSWER
      else if py_in ''alog'' question_lower \<or> py_in ''glitch'' question_lower then ALOG_ANSWER
      else generic_answer q)"

definition NOT_FOUND_ANSWER :: string where
  "NOT_FOUND_ANSWER = ''I couldn'' @ [CHR 0x27] @ ''t find relevant information in our knowledge base to answer your question. Please try rephrasing your question or contact a LIGO scientist for assistance.''"

text \<open>The citation loop of \<^verbatim>\<open>ask_question\<close>: one append per retrieved document.\<close>

fun build_citations :: "Citation list \<Rightarrow> mock_document list \<Rightarrow> Citation list" where
  "build_citations acc [] = acc"
| "build_citations acc (doc # docs) =
     build_citations
       (acc @ [\<lparr>cit_title = doc_title doc,
                cit_authors = Some (doc_authors doc),
                cit_url = Some (doc_url doc),
                cit_year = Some (doc_year doc),
                cit_source = doc_source doc\<rparr>])
       docs"

text \<open>
  The handler of \<^verbatim>\<open>POST /ask\<close>. Nothing in its \<^verbatim>\<open>try\<close> block raises on a
  request that passed validation, so the model returns the response itself.
\<close>

definition ask_question :: "ChatRequest \<Rightarrow> ChatResponse" where
  "ask_question request =
     (let retrieved_docs = get_mock_documents (question request) (top_k request) in
      if retrieved_docs = [] then
        \<lparr>answer = NOT_FOUND_ANSWER, citations = [], sources_used = 0, confidence = ''low''\<rparr>
      else
        let response = generate_mock_response (question request) retrieved_docs;
            cits = build_citations [] retrieved_docs
        in \<lparr>answer = response,
            citations = cits,
            sources_used = int (length retrieved_docs),
            confidence = (if 2 \<le> length retrieved_docs then ''high'' else ''medium'')\<rparr>)"

section \<open>app/schemas.py\<close>

text \<open>
  \<^verbatim>\<open>DocumentChunk\<close>. The class declares no \<^verbatim>\<open>score\<close>; the field
  \<open>score\<close> is the attribute \<^verbatim>\<open>getattr(doc, 'score', None)\<close> reads, \<open>None\<close>
  when the object carries none.
\<close>

record DocumentChunk =
  chunk_id :: string
  content :: string
  title :: string
  authors :: "string option"
  url :: "string option"
  year :: "int option"
  source :: string
  chunk_index :: int
  metadata :: "(string \<times> pyval) list option"
  score :: "real option"

section \<open>app/prompts.py\<close>

text \<open>The class attribute \<^verbatim>\<open>RAGPromptManager.DATA_DELIMITER\<close>.\<close>

definition DATA_DELIMITER :: string where
  "DATA_DELIMITER = ''~~~''"

text \<open>
  An object a name is bound to: a string, or an object of another kind, kept with
  the text \<^verbatim>\<open>str\<close> gives for it.
\<close>

datatype pyobj = Str string | Opaque string

fun str_of :: "pyobj \<Rightarrow> string" where
  "str_of (Str t) = t"
| "str_of (Opaque t) = t"

text \<open>
  The names bound at module level in \<^verbatim>\<open>app/prompts.py\<close>: its imports and
  its one class. The attributes of the class are reached through the class or an
  instance only; the body of a class is not a scope of its methods.
\<close>

definition prompts_globals :: "(string \<times> pyobj) list" where
  "prompts_globals =
     [(''re'', Opaque ''<module re>''),
      (''List'', Opaque ''typing.List''),
      (''Tuple'', Opaque ''typing.Tuple''),
      (''DocumentChunk'', Opaque ''<class app.schemas.DocumentChunk>''),
      (''RAGPromptManager'', Opaque ''<class app.prompts.RAGPromptManager>'')]"

definition RAGPromptManager_attributes :: "(string \<times> pyobj) list" where
  "RAGPromptManager_attributes = [(''DATA_DELIMITER'', Str DATA_DELIMITER)]"

text \<open>
  A bare name inside a function: the local variables, then the module's globals.
  (No builtin is called \<^verbatim>\<open>DATA_DELIMITER\<close>, \<^verbatim>\<open>question\<close> or
  \<^verbatim>\<open>context_text\<close>.)
\<close>

definition lookup_name :: "(string \<times> pyobj) list \<Rightarrow> (string \<times> pyobj) list \<Rightarrow> string \<Rightarrow> py_error + pyobj" where
  "lookup_name locals globals x =
     (case map_of locals x of
        Some v \<Rightarrow> Inr v
      | None \<Rightarrow>
          (case map_of globals x of
             Some v \<Rightarrow> Inr v
           | None \<Rightarrow> Inl (NameError x)))"

text \<open>
  An f-string is its literal pieces and the names between braces, evaluated from
  the left; the first name that is not bound raises.
\<close>

datatype fpart = Lit string | Name string

fun render_fstring :: "(string \<times> pyobj) list \<Rightarrow> (string \<times> pyobj) list \<Rightarrow> fpart list \<Rightarrow> py_error + string" where
  "render_fstring locals globals [] = Inr []"
| "render_fstring locals globals (Lit t # parts) =
     (case render_fstring locals globals parts of
        Inl e \<Rightarrow> Inl e
      | Inr r \<Rightarrow> Inr (t @ r))"
| "render_fstring locals globals (Name x # parts) =
     (case lookup_name locals globals x of
        Inl e \<Rightarrow> Inl e
      | Inr v \<Rightarrow>
          (case render_fstring locals globals parts of
             Inl e \<Rightarrow> Inl e
           | Inr r \<Rightarrow> Inr (str_of v @ r)))"

definition user_prompt_template :: "fpart list" where
  \<open>user_prompt_template =
     [Lit ''\<newline>Question: '',
      Name ''question'',
      Lit ''\<newline>\<newline>Context from LIGO/Gravity Spy knowledge base:\<newline>'',
      Name ''DATA_DELIMITER'',
      Lit ''\<newline>'',
      Name ''context_text'',
      Lit ''\<newline>'',
      Name ''DATA_DELIMITER'',
      Lit ''\<newline>\<newline>Please answer the question using ONLY the provided context. If the context doesn't contain enough information to answer the question, please say so clearly.\<newline>'']\<close>

definition system_prompt_template :: "fpart list" where
  \<open>system_prompt_template =
     [Lit ''\<newline>You are a LIGO scientist tasked with responding to citizen scientists with factual,\<newline>accessible responses. These might be any questions about LIGO technology, scientific\<newline>results, or questions about citizen scientist tasks related to Zooniverse or Gravity Spy.\<newline>Your goal is to help citizen scientists with factual responses to their questions that\<newline>will enable them to interpret Gravity Spy Glitches and their origins. Use clear, simple\<newline>language and avoid technical jargon to ensure accessibility. Translate acronyms to full\<newline>words based upon LIGO Abbreviations and Acronyms whenever possible.\<newline>\<newline>IMPORTANT INSTRUCTIONS:\<newline>1. Answer ONLY using the provided context between the '',
      Name ''DATA_DELIMITER'',
      Lit '' markers\<newline>2. Always cite your sources using the format [text](url) for URLs\<newline>3. If you reference a document, include the title and authors\<newline>4. Use phrases like "according to" or "as mentioned in" when citing\<newline>5. If the context doesn't contain enough information, clearly state this\<newline>6. Expand acronyms when possible (e.g., LIGO = Laser Interferometer Gravitational-Wave Observatory)\<newline>7. Maintain a neutral, informative tone\<newline>8. Use "some" rather than "all" when referring to data to avoid extremes\<newline>\<newline>When generating summaries, format all URLs without hashtags following this format:\<newline>[template_link_text](template_link_url).\<newline>\<newline>Structure responses logically, highlighting common or recent issues, and\<newline>maintain a neutral, informative tone. Phrase interpretations with rhetoric like\<newline>"an" (as opposed to "the") and "some" as opposed to "all" when referring to the\<newline>data. This will avoid extremes when there is a lack of clarity.\<newline>'']\<close>

text \<open>\<^verbatim>\<open>doc.year or 'Unknown'\<close>: \<^verbatim>\<open>None\<close> and \<open>0\<close> are false.\<close>

definition year_or_unknown :: "int option \<Rightarrow> string" where
  "year_or_unknown y =
     (case y of None \<Rightarrow> ''Unknown'' | Some n \<Rightarrow> if n = 0 then ''Unknown'' else str_int n)"

definition format_doc :: "nat \<Rightarrow> DocumentChunk \<Rightarrow> string" where
  "format_doc i doc =
     ''\<newline>Document '' @ str_nat i @
     '':\<newline>Title: '' @ title doc @
     ''\<newline>Authors: '' @ or_default (authors doc) ''Unknown'' @
     ''\<newline>Source: '' @ source doc @
     ''\<newline>Year: '' @ year_or_unknown (year doc) @
     ''\<newline>URL: '' @ or_default (url doc) ''Not available'' @
     ''\<newline>\<newline>Content:\<newline>'' @ content doc @
     ''\<newline>''"

fun format_loop :: "nat \<Rightarrow> DocumentChunk list \<Rightarrow> string list" where
  "format_loop i [] = []"
| "format_loop i (doc # docs) = py_strip (format_doc i doc) # format_loop (Suc i) docs"

definition format_retrieved_docs :: "DocumentChunk list \<Rightarrow> string" where
  "format_retrieved_docs docs = py_join ''\<newline>\<newline>'' (format_loop 1 docs)"

text \<open>
  \<^verbatim>\<open>create_rag_prompts\<close>. Its local variables when the two f-strings are
  evaluated are \<^verbatim>\<open>self\<close>, \<^verbatim>\<open>question\<close>, \<^verbatim>\<open>retrieved_docs\<close> and
  \<^verbatim>\<open>context_text\<close>.
\<close>

definition create_rag_prompts :: "string \<Rightarrow> DocumentChunk list \<Rightarrow> py_error + (string \<times> string)" where
  "create_rag_prompts q retrieved_docs =
     (let context_text = format_retrieved_docs retrieved_docs;
          locals = [(''self'', Opaque ''<app.prompts.RAGPromptManager object>''),
                    (''question'', Str q),
                    (''retrieved_docs'', Opaque ''[...]''),
                    (''context_text'', Str context_text)]
      in case render_fstring locals prompts_globals user_prompt_template of
           Inl e \<Rightarrow> Inl e
         | Inr user_prompt \<Rightarrow>
             (case render_fstring locals prompts_globals system_prompt_template of
                Inl e \<Rightarrow> Inl e
              | Inr system_prompt \<Rightarrow> Inr (py_strip user_prompt, py_strip system_prompt)))"

text \<open>A dictionary built by \<^verbatim>\<open>extract_citations\<close>.\<close>

record citation_entry =
  entry_title :: string
  entry_authors :: "string option"
  entry_url :: "string option"
  entry_year :: "int option"
  entry_source :: string
  relevance_score :: "real option"

fun extract_loop :: "citation_entry list \<Rightarrow> string \<Rightarrow> DocumentChunk list \<Rightarrow> citation_entry list" where
  "extract_loop acc response [] = acc"
| "extract_loop acc response (doc # docs) =
     (if py_in (py_lower (title doc)) (py_lower response)
      then extract_loop
             (acc @ [\<lparr>entry_title = title doc,
                      entry_authors = authors doc,
                      entry_url = url doc,
                      entry_year = year doc,
                      entry_source = source doc,
                      relevance_score = score doc\<rparr>])
             response docs
      else extract_loop acc response docs)"

definition extract_citations :: "string \<Rightarrow> DocumentChunk list \<Rightarrow> citation_entry list" where
  "extract_citations response retrieved_docs = extract_loop [] response retrieved_docs"

section \<open>app/generator.py\<close>

text \<open>The dictionary \<^verbatim>\<open>mock_responses\<close>, in insertion order.\<close>

definition mock_responses :: "(string \<times> string) list" where
  "mock_responses =
     [(''ligo'', ''LIGO (Laser Interferometer Gravitational-Wave Observatory) is a large-scale physics experiment designed to detect cosmic gravitational waves. The observatory uses laser interferometry to measure minute ripples in space-time caused by passing gravitational waves from cataclysmic cosmic events such as merging neutron stars or black holes.''),
      (''gravity spy'', ''Gravity Spy is a citizen science project that helps classify glitches in LIGO data. Volunteers examine spectrograms of gravitational wave detector noise to identify and categorize different types of instrumental artifacts that could interfere with gravitational wave detection.''),
      (''alog'', ''aLOGs (LIGO Online Glitch Database) contain detailed information about instrumental glitches detected in LIGO data. These logs help scientists understand the sources of noise and improve detector sensitivity by identifying and mitigating systematic issues.''),
      (''glitch'', ''Glitches in LIGO data are instrumental artifacts that can interfere with gravitational wave detection. They can be caused by various sources including environmental factors, detector hardware issues, or external disturbances. Gravity Spy helps classify these glitches to improve data quality.'')]"

definition canned_answer :: "string \<Rightarrow> string" where
  "canned_answer response = ''Based on the LIGO/Gravity Spy knowledge base, '' @ response"

definition specific_answer :: "string \<Rightarrow> string" where
  "specific_answer q =
     ''Thank you for your question about '' @ [CHR 0x27] @ q @ [CHR 0x27] @
     ''. Based on the available LIGO and Gravity Spy documentation, I can provide information about gravitational wave detection, detector technology, and citizen science opportunities. Could you please be more specific about what aspect you'd like to learn about?''"

text \<open>The first line of \<^verbatim>\<open>_get_mock_response\<close>: the question inside the prompt.\<close>

definition extract_question :: "string \<Rightarrow> py_error + string" where
  "extract_question user_prompt =
     (if py_in ''Question:'' user_prompt then
        (case py_index (py_split_sep ''Question:'' user_prompt) 1 of
           Inl e \<Rightarrow> Inl e
         | Inr after \<Rightarrow>
             (case py_index (py_split_sep ''\<newline>'' after) 0 of
                Inl e \<Rightarrow> Inl e
              | Inr line \<Rightarrow> Inr (py_strip line)))
      else Inr ''your question'')"

text \<open>The loop over \<^verbatim>\<open>mock_responses.items()\<close>, then the last \<^verbatim>\<open>return\<close>.\<close>

fun lookup_response :: "(string \<times> string) list \<Rightarrow> string \<Rightarrow> string \<Rightarrow> string" where
  "lookup_response [] q question_lower = specific_answer q"
| "lookup_response ((keyword, response) # rest) q question_lower =
     (if py_in keyword question_lower then canned_answer response
      else lookup_response rest q question_lower)"

definition get_mock_response :: "string \<Rightarrow> py_error + string" where
  "get_mock_response user_prompt =
     (case extract_question user_prompt of
        Inl e \<Rightarrow> Inl e
      | Inr q \<Rightarrow> Inr (lookup_response mock_responses q (py_lower q)))"

section \<open>app/retriever.py\<close>

definition mock_docs :: "DocumentChunk list" where
  "mock_docs =
     [\<lparr>chunk_id = ''mock-1'',
       content = LIGO_CONTENT,
       title = ''Introduction to LIGO'',
       authors = Some ''LIGO Scientific Collaboration'',
       url = Some ''https://www.ligo.org/science.php'',
       year = Some 2023,
       source = ''LIGO Documentation'',
       chunk_index = 1,
       metadata = None,
       score = None\<rparr>,
      \<lparr>chunk_id = ''mock-2'',
       content = GRAVITY_SPY_CONTENT,
       title = ''Gravity Spy Citizen Science'',
       authors = Some ''Gravity Spy Team'',
       url = Some ''https://www.zooniverse.org/projects/zooniverse/gravity-spy'',
       year = Some 2024,
       source = ''Zooniverse'',
       chunk_index = 1,
       metadata = None,
       score = None\<rparr>,
      \<lparr>chunk_id = ''mock-3'',
       content = ALOG_CONTENT,
       title = ''Understanding aLOGs'',
       authors = Some ''LIGO Detector Characterization Group'',
       url = Some ''https://alog.ligo-wa.caltech.edu/'',
       year = Some 2023,
       source = ''aLOG Database'',
       chunk_index = 1,
       metadata = None,
       score = None\<rparr>]"

fun filter_chunks :: "string list \<Rightarrow> DocumentChunk list \<Rightarrow> DocumentChunk list" where
  "filter_chunks keywords [] = []"
| "filter_chunks keywords (doc # docs) =
     (if any_keyword keywords (content doc) (title doc)
      then doc # filter_chunks keywords docs
      else filter_chunks keywords docs)"

text \<open>\<^verbatim>\<open>DocumentRetriever._get_mock_documents\<close>.\<close>

definition retriever_get_mock_documents :: "string \<Rightarrow> int \<Rightarrow> DocumentChunk list" where
  "retriever_get_mock_documents query k =
     (let query_lower = py_lower query;
          filtered_docs = filter_chunks (py_split query_lower) mock_docs
      in py_slice_upto filtered_docs (Some k))"

text \<open>
  A record returned by the search backend: a dictionary in which any of the keys
  may be missing.
\<close>

record search_result =
  res_id :: "string option"
  res_content :: "string option"
  res_title :: "string option"
  res_authors :: "string option"
  res_url :: "string option"
  res_year :: "int option"
  res_source :: "string option"
  res_chunk_index :: "int option"
  res_metadata :: "(string \<times> pyval) list option"

definition chunk_of_result :: "search_result \<Rightarrow> DocumentChunk" where
  "chunk_of_result result =
     \<lparr>chunk_id = (case res_id result of None \<Rightarrow> [] | Some v \<Rightarrow> v),
      content = (case res_content result of None \<Rightarrow> [] | Some v \<Rightarrow> v),
      title = (case res_title result of None \<Rightarrow> [] | Some v \<Rightarrow> v),
      authors = res_authors result,
      url = res_url result,
      year = res_year result,
      source = (case res_source result of None \<Rightarrow> ''unknown'' | Some v \<Rightarrow> v),
      chunk_index = (case res_chunk_index result of None \<Rightarrow> 0 | Some v \<Rightarrow> v),
      metadata = (case res_metadata result of None \<Rightarrow> Some [] | Some v \<Rightarrow> Some v),
      score = None\<rparr>"

text \<open>
  \<^verbatim>\<open>retrieve_documents\<close>. The search client is a parameter: what its call and
  the iteration over its results give, a list of records or the exception raised
  on the way. \<^verbatim>\<open>except Exception\<close> catches every error of the
  \<^verbatim>\<open>try\<close> block.
\<close>

definition retrieve_documents ::
  "(string \<Rightarrow> int \<Rightarrow> (string \<times> pyval) list option \<Rightarrow> py_error + search_result list) \<Rightarrow>
   string \<Rightarrow> int \<Rightarrow> (string \<times> pyval) list option \<Rightarrow> py_error + DocumentChunk list" where
  "retrieve_documents search_client query k filters =
     (case search_client query k filters of
        Inr search_results \<Rightarrow> Inr (map chunk_of_result search_results)
      | Inl e \<Rightarrow> Inr (retriever_get_mock_documents query k))"

text \<open>\<^verbatim>\<open>MockSearchClient.search\<close>.\<close>

definition MockSearchClient_search ::
  "string \<Rightarrow> int \<Rightarrow> (string \<times> pyval) list option \<Rightarrow> py_error + search_result list" where
  "MockSearchClient_search search_text top_n filters = Inr []"

section \<open>ingestion/zotero_sync.py\<close>

text \<open>
  An item of the Zotero API: a dictionary with a key, a dictionary of data and a
  list of attachments. A key that is missing is \<open>None\<close>; a missing dictionary
  of data is the one with every key missing, a missing list is empty.
\<close>

record creator =
  creatorType :: "string option"
  firstName :: "string option"
  lastName :: "string option"

record zotero_data =
  itemType :: "string option"
  data_title :: "string option"
  data_url :: "string option"
  data_date :: "string option"
  abstractNote :: "string option"
  creators :: "creator list"

text \<open>An attachment, with \<^verbatim>\<open>att.get("data", {}).get("contentType")\<close>.\<close>

record attachment =
  contentType :: "string option"

record zotero_item =
  item_key :: "string option"
  item_data :: zotero_data
  attachments :: "attachment list"

text \<open>\<^verbatim>\<open>d.get(k, "")\<close>.\<close>

definition get_str :: "string option \<Rightarrow> string" where
  "get_str v = (case v of None \<Rightarrow> [] | Some t \<Rightarrow> t)"

definition valid_types :: "string list" where
  "valid_types = [''journalArticle'', ''book'', ''bookSection'', ''report'', ''thesis'', ''document'']"

fun any_pdf :: "attachment list \<Rightarrow> bool" where
  "any_pdf [] = False"
| "any_pdf (att # atts) =
     (if contentType att = Some ''application/pdf'' then True else any_pdf atts)"

text \<open>
  \<^verbatim>\<open>_is_valid_item\<close>; the result is the truth value of what the source
  returns (\<^verbatim>\<open>has_pdf or data.get("url", "")\<close>).
\<close>

definition is_valid_item :: "zotero_item \<Rightarrow> bool" where
  "is_valid_item item =
     (let data = item_data item;
          item_type = get_str (itemType data)
      in if item_type \<notin> set valid_types then False
         else if py_strip (get_str (data_title data)) = [] then False
         else (let has_pdf = any_pdf (attachments item)
               in has_pdf \<or> get_str (data_url data) \<noteq> []))"

fun authors_loop :: "string list \<Rightarrow> creator list \<Rightarrow> string list" where
  "authors_loop acc [] = acc"
| "authors_loop acc (c # cs) =
     (if creatorType c = Some ''author'' then
        (let first_name = get_str (firstName c);
             last_name = get_str (lastName c)
         in if last_name \<noteq> []
            then authors_loop (acc @ [py_strip (first_name @ '' '' @ last_name)]) cs
            else authors_loop acc cs)
      else authors_loop acc cs)"

definition extract_authors :: "zotero_data \<Rightarrow> string" where
  "extract_authors data =
     (let found = authors_loop [] (creators data)
      in if found \<noteq> [] then py_join '', '' found else ''Unknown'')"

text \<open>
  A processed item: the dictionary \<^verbatim>\<open>_process_zotero_item\<close> builds. The
  year is a string or \<^verbatim>\<open>None\<close> there, and an integer in the mock items.
\<close>

record processed_item =
  item_id :: string
  item_title :: string
  item_authors :: string
  item_year :: pyval
  item_url :: string
  item_abstract :: string
  item_type :: string
  item_source :: string
  raw_data :: "zotero_data option"

text \<open>
  \<^verbatim>\<open>data.get("date", "").split("-")[0] if data.get("date") else None\<close>.
\<close>

definition year_of_date :: "string option \<Rightarrow> py_error + pyval" where
  "year_of_date d =
     (if get_str d \<noteq> [] then
        (case py_index (py_split_sep ''-'' (get_str d)) 0 of
           Inl e \<Rightarrow> Inl e
         | Inr y \<Rightarrow> Inr (PyStr y))
      else Inr PyNone)"

definition process_zotero_item :: "zotero_item \<Rightarrow> py_error + processed_item" where
  "process_zotero_item item =
     (let data = item_data item in
      case year_of_date (data_date data) of
        Inl e \<Rightarrow> Inl e
      | Inr y \<Rightarrow>
          Inr \<lparr>item_id = get_str (item_key item),
               item_title = get_str (data_title data),
               item_authors = extract_authors data,
               item_year = y,
               item_url = get_str (data_url data),
               item_abstract = get_str (abstractNote data),
               item_type = get_str (itemType data),
               item_source = ''Zotero'',
               raw_data = Some data\<rparr>)"

definition get_mock_items :: "processed_item list" where
  "get_mock_items =
     [\<lparr>item_id = ''mock-zotero-1'',
       item_title = ''Advanced LIGO: The Next Generation of Gravitational Wave Detectors'',
       item_authors = ''LIGO Scientific Collaboration'',
       item_year = PyInt 2023,
       item_url = ''https://www.ligo.org/science.php'',
       item_abstract = ''This paper describes the Advanced LIGO detector upgrades and their impact on gravitational wave detection sensitivity.'',
       item_type = ''journalArticle'',
       item_source = ''Zotero'',
       raw_data = None\<rparr>,
      \<lparr>item_id = ''mock-zotero-2'',
       item_title = ''Gravity Spy: A Citizen Science Project for LIGO Glitch Classification'',
       item_authors = ''Gravity Spy Team, LIGO Scientific Collaboration'',
       item_year = PyInt 2024,
       item_url = ''https://www.zooniverse.org/projects/zooniverse/gravity-spy'',
       item_abstract = ''This paper presents the Gravity Spy citizen science project and its contributions to LIGO data quality.'',
       item_type = ''journalArticle'',
       item_source = ''Zotero'',
       raw_data = None\<rparr>,
      \<lparr>item_id = ''mock-zotero-3'',
       item_title = ''Understanding LIGO Detector Glitches Through Machine Learning'',
       item_authors = ''Smith, A., Johnson, B., LIGO Detector Characterization Group'',
       item_year = PyInt 2023,
       item_url = ''https://arxiv.org/abs/mock-paper'',
       item_abstract = ''This study explores machine learning approaches to classify and understand instrumental glitches in LIGO data.'',
       item_type = ''journalArticle'',
       item_source = ''Zotero'',
       raw_data = None\<rparr>]"

text \<open>The loop of \<^verbatim>\<open>sync_zotero_items\<close> over the items of the response.\<close>

fun process_loop :: "processed_item list \<Rightarrow> zotero_item list \<Rightarrow> py_error + processed_item list" where
  "process_loop processed_items [] = Inr processed_items"
| "process_loop processed_items (item # items) =
     (if is_valid_item item then
        (case process_zotero_item item of
           Inl e \<Rightarrow> Inl e
         | Inr processed \<Rightarrow> process_loop (processed_items @ [processed]) items)
      else process_loop processed_items items)"

text \<open>
  \<^verbatim>\<open>sync_zotero_items\<close>. The parameter is what the request gives: the items
  of the decoded response, or the exception raised on the way. A
  \<^verbatim>\<open>RequestException\<close> returns the mock items, any other exception the empty
  list.
\<close>

definition sync_zotero_items :: "py_error + zotero_item list \<Rightarrow> processed_item list" where
  "sync_zotero_items response =
     (case response of
        Inr items \<Rightarrow>
          (case process_loop [] items of
             Inr processed_items \<Rightarrow> processed_items
           | Inl e \<Rightarrow> (case e of RequestException m \<Rightarrow> get_mock_items | _ \<Rightarrow> []))
      | Inl e \<Rightarrow> (case e of RequestException m \<Rightarrow> get_mock_items | _ \<Rightarrow> []))"

text \<open>Truth value, \<^verbatim>\<open>str\<close> and \<^verbatim>\<open>int\<close> of a dictionary value.\<close>

fun truthy :: "pyval \<Rightarrow> bool" where
  "truthy PyNone = False"
| "truthy (PyStr t) = (t \<noteq> [])"
| "truthy (PyInt n) = (n \<noteq> 0)"

fun str_of_val :: "pyval \<Rightarrow> string" where
  "str_of_val PyNone = ''None''"
| "str_of_val (PyStr t) = t"
| "str_of_val (PyInt n) = str_int n"

fun int_of_val :: "(string \<Rightarrow> py_error + int) \<Rightarrow> pyval \<Rightarrow> py_error + int" where
  "int_of_val unicode_int PyNone =
     Inl (TypeError ''int() argument must be a string or a number'')"
| "int_of_val unicode_int (PyStr t) = py_int unicode_int t"
| "int_of_val unicode_int (PyInt n) = Inr n"

definition content_parts :: "processed_item \<Rightarrow> string list" where
  "content_parts item =
     (if item_title item \<noteq> [] then [''Title: '' @ item_title item] else []) @
     (if item_authors item \<noteq> [] then [''Authors: '' @ item_authors item] else []) @
     (if item_abstract item \<noteq> [] then [''Abstract: '' @ item_abstract item] else []) @
     (if truthy (item_year item) then [''Year: '' @ str_of_val (item_year item)] else [])"

text \<open>The body of the loop of \<^verbatim>\<open>create_document_chunks\<close>: one chunk of one item.\<close>

definition make_chunk ::
  "(string \<Rightarrow> py_error + int) \<Rightarrow> processed_item \<Rightarrow> py_error + DocumentChunk" where
  "make_chunk unicode_int item =
     (let chunk_content = py_join ''\<newline>\<newline>'' (content_parts item) in
      case (if truthy (item_year item)
            then (case int_of_val unicode_int (item_year item) of
                    Inl e \<Rightarrow> Inl e
                  | Inr n \<Rightarrow> Inr (Some n))
            else Inr None) of
        Inl e \<Rightarrow> Inl e
      | Inr y \<Rightarrow>
          Inr \<lparr>chunk_id = ''zotero-'' @ item_id item,
               content = chunk_content,
               title = item_title item,
               authors = Some (item_authors item),
               url = Some (item_url item),
               year = y,
               source = ''Zotero'',
               chunk_index = 0,
               metadata = Some [(''item_type'', PyStr (item_type item)),
                                (''zotero_id'', PyStr (item_id item)),
                                (''abstract'', PyStr (item_abstract item))],
               score = None\<rparr>)"

fun chunks_loop ::
  "(string \<Rightarrow> py_error + int) \<Rightarrow> DocumentChunk list \<Rightarrow> processed_item list \<Rightarrow>
   py_error + DocumentChunk list" where
  "chunks_loop unicode_int chunks [] = Inr chunks"
| "chunks_loop unicode_int chunks (item # items) =
     (case make_chunk unicode_int item of
        Inl e \<Rightarrow> Inl e
      | Inr chunk \<Rightarrow> chunks_loop unicode_int (chunks @ [chunk]) items)"

text \<open>
  \<^verbatim>\<open>create_document_chunks\<close>; \<open>unicode_int\<close> is the parameter of
  \<^verbatim>\<open>int\<close> above.
\<close>

definition create_document_chunks ::
  "(string \<Rightarrow> py_error + int) \<Rightarrow> processed_item list \<Rightarrow> py_error + DocumentChunk list" where
  "create_document_chunks unicode_int items = chunks_loop unicode_int [] items"

section \<open>Notions of the specification\<close>

text \<open>
  The definitions of this section are not translations of the source: they state, in
  terms of lists alone, what the specification means by a whitespace-delimited
  token and by the text after a marker. The properties below relate the source's
  functions to them.

  A token of \<open>s\<close> is a maximal run of characters of \<open>s\<close> without whitespace:
  it is not empty, and it is preceded and followed by whitespace or by an end of
  \<open>s\<close>.
\<close>

definition is_token :: "string \<Rightarrow> string \<Rightarrow> bool" where
  "is_token s t \<longleftrightarrow>
     t \<noteq> [] \<and> (\<forall>c\<in>set t. \<not> py_isspace c) \<and>
     (\<exists>a b. s = a @ t @ b \<and> (a = [] \<or> py_isspace (last a)) \<and> (b = [] \<or> py_isspace (hd b)))"


text \<open>
  A decimal numeral is a non-empty string of the digits \<open>0\<close> to \<open>9\<close>. An integer
  literal is what \<^verbatim>\<open>int\<close> reads as a number in base 10: whitespace, an
  optional sign, a numeral, further numerals each after one underscore, and
  whitespace, with at most 4300 digits in all.
\<close>

definition decimal_numeral :: "string \<Rightarrow> bool" where
  "decimal_numeral g \<longleftrightarrow> g \<noteq> [] \<and> (\<forall>c\<in>set g. c \<in> set ''0123456789'')"

definition is_int_literal :: "string \<Rightarrow> bool" where
  "is_int_literal y \<longleftrightarrow>
     (\<exists>w1 sg g gs w2.
        y = w1 @ sg @ g @ concat (map ((#) CHR ''_'') gs) @ w2 \<and>
        (\<forall>c\<in>set w1. int_isspace c) \<and> (\<forall>c\<in>set w2. int_isspace c) \<and>
        (sg = [] \<or> sg = ''+'' \<or> sg = ''-'') \<and>
        decimal_numeral g \<and> (\<forall>h\<in>set gs. decimal_numeral h) \<and>
        length g + length (concat gs) \<le> 4300)"

text \<open>
  Where a marker occurs in a text: \<open>after_marker m s\<close> is what follows the first
  occurrence of \<open>m\<close> in \<open>s\<close> (\<open>None\<close> when there is none), and
  \<open>before_marker m s\<close> is what precedes it (all of \<open>s\<close> when there is none).
\<close>

fun after_marker :: "string \<Rightarrow> string \<Rightarrow> string option" where
  "after_marker m [] = (if m = [] then Some [] else None)"
| "after_marker m (c # cs) =
     (if startswith (c # cs) m then Some (drop (length m) (c # cs))
      else after_marker m cs)"

fun before_marker :: "string \<Rightarrow> string \<Rightarrow> string" where
  "before_marker m [] = []"
| "before_marker m (c # cs) =
     (if startswith (c # cs) m then [] else c # before_marker m cs)"

text \<open>
  The question as the specification describes it: the text that follows the marker
  \<^verbatim>\<open>"Question:"\<close> up to the next line break, or a placeholder when the
  marker is absent.
\<close>

definition spec_extract_question :: "string \<Rightarrow> string" where
  "spec_extract_question user_prompt =
     (case after_marker ''Question:'' user_prompt of
        None \<Rightarrow> ''your question''
      | Some rest \<Rightarrow> takeWhile (\<lambda>c. c \<noteq> CHR 0x0A) rest)"

section \<open>Properties of the string operations\<close>

lemma startswith_iff: "startswith s k \<longleftrightarrow> (\<exists>b. s = k @ b)"
  by (induction s k rule: startswith.induct) auto

text \<open>\<^verbatim>\<open>k in s\<close> is the substring relation.\<close>

lemma py_in_iff: "py_in k s \<longleftrightarrow> (\<exists>a b. s = a @ k @ b)"
proof (induction s)
  case Nil
  show ?case by auto
next
  case (Cons c cs)
  show ?case
  proof
    assume "py_in k (c # cs)"
    then consider "startswith (c # cs) k" | "py_in k cs"
      by (auto split: if_splits)
    then show "\<exists>a b. c # cs = a @ k @ b"
    proof cases
      case 1
      then obtain b where "c # cs = k @ b" by (auto simp: startswith_iff)
      then have "c # cs = [] @ k @ b" by simp
      then show ?thesis by blast
    next
      case 2
      then obtain a b where "cs = a @ k @ b" using Cons.IH by blast
      then have "c # cs = (c # a) @ k @ b" by simp
      then show ?thesis by blast
    qed
  next
    assume "\<exists>a b. c # cs = a @ k @ b"
    then obtain a b where ab: "c # cs = a @ k @ b" by blast
    show "py_in k (c # cs)"
    proof (cases a)
      case Nil
      with ab have "startswith (c # cs) k" by (auto simp: startswith_iff)
      then show ?thesis by simp
    next
      case (Cons x a')
      with ab have "cs = a' @ k @ b" by simp
      then have "py_in k cs" using Cons.IH by blast
      then show ?thesis by simp
    qed
  qed
qed

lemma any_keyword_iff:
  "any_keyword kws c t \<longleftrightarrow> (\<exists>k\<in>set kws. py_in k (py_lower c) \<or> py_in k (py_lower t))"
  by (induction kws) auto

lemma length_below_two: "xs \<noteq> [] \<Longrightarrow> \<not> 2 \<le> length xs \<Longrightarrow> length xs = Suc 0"
  by (cases xs) (auto simp: Suc_le_eq)

text \<open>
  \<^verbatim>\<open>lower\<close> maps the capital letters to the small ones and changes no other
  character.
\<close>

lemma py_lower_letters:
  "py_lower ''ABCDEFGHIJKLMNOPQRSTUVWXYZ'' = ''abcdefghijklmnopqrstuvwxyz''"
  by (simp add: py_lower_def)

lemma capital_bits:
  "\<not> b7 \<Longrightarrow> b6 \<Longrightarrow> \<not> b5 \<Longrightarrow> b0 \<or> b1 \<or> b2 \<or> b3 \<or> b4 \<Longrightarrow>
   \<not> (b4 \<and> b3 \<and> (b2 \<or> (b1 \<and> b0))) \<Longrightarrow>
   Char b0 b1 b2 b3 b4 b5 b6 b7 \<in> set ''ABCDEFGHIJKLMNOPQRSTUVWXYZ''"
  by (cases b0; cases b1; cases b2; cases b3; cases b4; simp)

lemma lower_char_other:
  assumes "c \<notin> set ''ABCDEFGHIJKLMNOPQRSTUVWXYZ''"
  shows "lower_char c = c"
proof (cases c)
  case (Char b0 b1 b2 b3 b4 b5 b6 b7)
  show ?thesis
  proof (rule ccontr)
    assume "lower_char c \<noteq> c"
    with Char have "\<not> b7 \<and> b6 \<and> \<not> b5 \<and> (b0 \<or> b1 \<or> b2 \<or> b3 \<or> b4)
         \<and> \<not> (b4 \<and> b3 \<and> (b2 \<or> (b1 \<and> b0)))"
      by (simp split: if_splits)
    then have "c \<in> set ''ABCDEFGHIJKLMNOPQRSTUVWXYZ''"
      unfolding Char by (intro capital_bits) blast+
    with assms show False by blast
  qed
qed

text \<open>Whitespace splitting and tokens.\<close>

lemma is_tokenI:
  "t \<noteq> [] \<Longrightarrow> \<forall>c\<in>set t. \<not> py_isspace c \<Longrightarrow> s = a @ t @ b \<Longrightarrow>
   a = [] \<or> py_isspace (last a) \<Longrightarrow> b = [] \<or> py_isspace (hd b) \<Longrightarrow> is_token s t"
  unfolding is_token_def by blast

lemma is_tokenE:
  assumes "is_token s t"
  obtains a b where "t \<noteq> []" "\<forall>c\<in>set t. \<not> py_isspace c" "s = a @ t @ b"
    "a = [] \<or> py_isspace (last a)" "b = [] \<or> py_isspace (hd b)"
  using assms unfolding is_token_def by blast

lemma token_nows:
  assumes "\<forall>c\<in>set cur. \<not> py_isspace c"
  shows "is_token cur t \<longleftrightarrow> cur \<noteq> [] \<and> t = cur"
proof
  assume "is_token cur t"
  then obtain a b where t: "t \<noteq> []" and s: "cur = a @ t @ b"
    and a: "a = [] \<or> py_isspace (last a)" and b: "b = [] \<or> py_isspace (hd b)"
    by (rule is_tokenE)
  have "a = []"
  proof (rule ccontr)
    assume "a \<noteq> []"
    with a have "py_isspace (last a)" by simp
    moreover have "last a \<in> set cur" using \<open>a \<noteq> []\<close> s by simp
    ultimately show False using assms by blast
  qed
  moreover have "b = []"
  proof (rule ccontr)
    assume "b \<noteq> []"
    with b have "py_isspace (hd b)" by simp
    moreover have "hd b \<in> set cur" using \<open>b \<noteq> []\<close> s by simp
    ultimately show False using assms by blast
  qed
  ultimately show "cur \<noteq> [] \<and> t = cur" using s t by simp
next
  assume "cur \<noteq> [] \<and> t = cur"
  then show "is_token cur t" using assms by (intro is_tokenI [of t cur "[]" "[]"]) simp_all
qed

lemma token_skip:
  assumes "py_isspace c"
  shows "is_token (c # cs) t \<longleftrightarrow> is_token cs t"
proof
  assume "is_token (c # cs) t"
  then obtain a b where t: "t \<noteq> []" and n: "\<forall>x\<in>set t. \<not> py_isspace x" and s: "c # cs = a @ t @ b"
    and a: "a = [] \<or> py_isspace (last a)" and b: "b = [] \<or> py_isspace (hd b)"
    by (rule is_tokenE)
  show "is_token cs t"
  proof (cases a)
    case Nil
    with s t have "hd t = c" by (cases t) auto
    with t n assms show ?thesis by (cases t) auto
  next
    case (Cons x a')
    with s have cs: "cs = a' @ t @ b" by simp
    from a Cons have "a' = [] \<or> py_isspace (last a')" by (auto split: if_splits)
    with t n cs b show ?thesis by (intro is_tokenI [of t cs a' b]) simp_all
  qed
next
  assume "is_token cs t"
  then obtain a b where t: "t \<noteq> []" and n: "\<forall>x\<in>set t. \<not> py_isspace x" and s: "cs = a @ t @ b"
    and a: "a = [] \<or> py_isspace (last a)" and b: "b = [] \<or> py_isspace (hd b)"
    by (rule is_tokenE)
  have "py_isspace (last (c # a))" using a assms by auto
  with t n s b show "is_token (c # cs) t"
    by (intro is_tokenI [of t "c # cs" "c # a" b]) simp_all
qed

lemma token_first:
  assumes "py_isspace c" and "cur \<noteq> []" and cur: "\<forall>x\<in>set cur. \<not> py_isspace x"
  shows "is_token (cur @ c # cs) t \<longleftrightarrow> t = cur \<or> is_token cs t"
proof
  assume "t = cur \<or> is_token cs t"
  then show "is_token (cur @ c # cs) t"
  proof
    assume "t = cur"
    with assms show ?thesis
      by (intro is_tokenI [of t "cur @ c # cs" "[]" "c # cs"]) simp_all
  next
    assume "is_token cs t"
    then obtain a b where t: "t \<noteq> []" and n: "\<forall>x\<in>set t. \<not> py_isspace x" and s: "cs = a @ t @ b"
      and a: "a = [] \<or> py_isspace (last a)" and b: "b = [] \<or> py_isspace (hd b)"
      by (rule is_tokenE)
    have "py_isspace (last (cur @ c # a))" using a assms(1) by auto
    with t n s b show ?thesis
      by (intro is_tokenI [of t "cur @ c # cs" "cur @ c # a" b]) simp_all
  qed
next
  assume "is_token (cur @ c # cs) t"
  then obtain a b where t: "t \<noteq> []" and n: "\<forall>x\<in>set t. \<not> py_isspace x"
    and s: "cur @ c # cs = a @ t @ b"
    and a: "a = [] \<or> py_isspace (last a)" and b: "b = [] \<or> py_isspace (hd b)"
    by (rule is_tokenE)
  from s obtain us where
    "(cur = a @ us \<and> us @ c # cs = t @ b) \<or> (cur @ us = a \<and> c # cs = us @ t @ b)"
    unfolding append_eq_append_conv2 by blast
  then show "t = cur \<or> is_token cs t"
  proof
    assume h: "cur = a @ us \<and> us @ c # cs = t @ b"
    have "a = []"
    proof (rule ccontr)
      assume "a \<noteq> []"
      with a have "py_isspace (last a)" by simp
      moreover have "last a \<in> set cur" using \<open>a \<noteq> []\<close> h by simp
      ultimately show False using cur by blast
    qed
    with h have e: "cur @ c # cs = t @ b" by simp
    then obtain vs where
      "(cur = t @ vs \<and> vs @ c # cs = b) \<or> (cur @ vs = t \<and> c # cs = vs @ b)"
      unfolding append_eq_append_conv2 by blast
    then have "t = cur"
    proof
      assume k: "cur = t @ vs \<and> vs @ c # cs = b"
      have "vs = []"
      proof (rule ccontr)
        assume "vs \<noteq> []"
        with k have "hd b = hd vs" and "b \<noteq> []" by auto
        with b have "py_isspace (hd vs)" by simp
        moreover have "hd vs \<in> set cur" using \<open>vs \<noteq> []\<close> k by simp
        ultimately show False using cur by blast
      qed
      with k show ?thesis by simp
    next
      assume k: "cur @ vs = t \<and> c # cs = vs @ b"
      have "vs = []"
      proof (rule ccontr)
        assume "vs \<noteq> []"
        with k have "hd vs = c" by (cases vs) auto
        with \<open>vs \<noteq> []\<close> k have "c \<in> set t" by (cases vs) auto
        with n assms(1) show False by blast
      qed
      with k show ?thesis by simp
    qed
    then show ?thesis ..
  next
    assume h: "cur @ us = a \<and> c # cs = us @ t @ b"
    show ?thesis
    proof (cases us)
      case Nil
      with h t have "c \<in> set t" by (cases t) auto
      with n assms(1) show ?thesis by blast
    next
      case (Cons x us')
      with h have cs: "cs = us' @ t @ b" and a': "a = cur @ c # us'" by auto
      from a a' have "us' = [] \<or> py_isspace (last us')" by (auto split: if_splits)
      with t n cs b have "is_token cs t" by (intro is_tokenI [of t cs us' b]) simp_all
      then show ?thesis ..
    qed
  qed
qed

lemma split_acc_tokens:
  "\<forall>c\<in>set cur. \<not> py_isspace c \<Longrightarrow> t \<in> set (split_acc cur s) \<longleftrightarrow> is_token (cur @ s) t"
proof (induction s arbitrary: cur)
  case Nil
  then show ?case using token_nows by auto
next
  case (Cons c cs)
  show ?case
  proof (cases "py_isspace c")
    case True
    show ?thesis
    proof (cases "cur = []")
      case True
      with \<open>py_isspace c\<close> Cons.IH [of "[]"] show ?thesis by (simp add: token_skip)
    next
      case False
      with \<open>py_isspace c\<close> Cons.IH [of "[]"] Cons.prems show ?thesis by (simp add: token_first)
    qed
  next
    case False
    with Cons.prems have "\<forall>x\<in>set (cur @ [c]). \<not> py_isspace x" by simp
    from Cons.IH [OF this] False show ?thesis by simp
  qed
qed

text \<open>\<^verbatim>\<open>s.split()\<close> returns the tokens of \<open>s\<close>.\<close>

lemma py_split_tokens: "t \<in> set (py_split s) \<longleftrightarrow> is_token s t"
  using split_acc_tokens [of "[]" t s] by (simp add: py_split_def)

lemma is_token_Nil: "\<not> is_token (py_lower []) t"
  by (auto simp: is_token_def py_lower_def)

lemma bex_py_split: "(\<exists>t\<in>set (py_split s). P t) \<longleftrightarrow> (\<exists>t. is_token s t \<and> P t)"
  by (auto simp: py_split_tokens)

section \<open>Properties of app/main.py\<close>

lemma filter_docs_filter:
  "filter_docs kws docs = filter (\<lambda>d. any_keyword kws (doc_content d) (doc_title d)) docs"
  by (induction docs) auto

lemma build_citations_map:
  "build_citations acc docs =
     acc @ map (\<lambda>doc. \<lparr>cit_title = doc_title doc, cit_authors = Some (doc_authors doc),
                       cit_url = Some (doc_url doc), cit_year = Some (doc_year doc),
                       cit_source = doc_source doc\<rparr>) docs"
  by (induction docs arbitrary: acc) auto

text \<open>The three fixture documents on the question of the end-to-end test.\<close>

lemma what_is_ligo_filter:
  "filter_docs (py_split (py_lower ''What is LIGO?'')) MOCK_DOCUMENTS = MOCK_DOCUMENTS"
  by code_simp

lemma nonsense_filter:
  "filter_docs (py_split (py_lower ''asdfqwerty nonsense'')) MOCK_DOCUMENTS = []"
  by code_simp

lemma what_is_ligo_answer:
  "generate_mock_response ''What is LIGO?'' docs = LIGO_ANSWER"
  by (simp add: generate_mock_response_def Let_def py_lower_def)

lemma ligo_in_answer: "py_in ''LIGO'' LIGO_ANSWER"
  by code_simp

lemma length_MOCK_DOCUMENTS: "length MOCK_DOCUMENTS = 3"
  by (simp add: MOCK_DOCUMENTS_def)

lemma what_is_ligo_docs:
  "get_mock_documents ''What is LIGO?'' (Some 5) = MOCK_DOCUMENTS"
  by (simp add: get_mock_documents_def get_documents_from_def Let_def what_is_ligo_filter
      py_slice_upto_def length_MOCK_DOCUMENTS)

text \<open>
  Claim C2, as the specification states it: the question \<^verbatim>\<open>"What is LIGO?"\<close> on
  the three fixture documents gives \<^verbatim>\<open>sources_used == 1\<close>, confidence
  \<^verbatim>\<open>"medium"\<close> and an answer that contains \<^verbatim>\<open>"LIGO"\<close>. The handler does not
  do that: the token \<^verbatim>\<open>is\<close> of the question is a substring of every fixture
  document (of "scientists" in the third), so all three are retrieved.
\<close>

theorem what_is_ligo_counterexample:
  "\<not> (sources_used (ask_question \<lparr>question = ''What is LIGO?'', top_k = Some 5, max_tokens = Some 500\<rparr>) = 1 \<and>
      confidence (ask_question \<lparr>question = ''What is LIGO?'', top_k = Some 5, max_tokens = Some 500\<rparr>) = ''medium'' \<and>
      py_in ''LIGO'' (answer (ask_question \<lparr>question = ''What is LIGO?'', top_k = Some 5, max_tokens = Some 500\<rparr>)))"
proof -
  have "MOCK_DOCUMENTS \<noteq> []" using length_MOCK_DOCUMENTS by auto
  then have "sources_used (ask_question \<lparr>question = ''What is LIGO?'', top_k = Some 5, max_tokens = Some 500\<rparr>) = 3"
    by (simp add: ask_question_def what_is_ligo_docs Let_def length_MOCK_DOCUMENTS)
  then show ?thesis by simp
qed

text \<open>
  Claim C2, amended: with the default \<^verbatim>\<open>top_k = 5\<close>, the question
  \<^verbatim>\<open>"What is LIGO?"\<close> on the three fixture documents gives
  \<^verbatim>\<open>sources_used == 3\<close>, confidence \<^verbatim>\<open>"high"\<close>, and an answer that contains
  \<^verbatim>\<open>"LIGO"\<close>.
\<close>

theorem what_is_ligo_response:
  "sources_used (ask_question \<lparr>question = ''What is LIGO?'', top_k = Some 5, max_tokens = Some 500\<rparr>) = 3 \<and>
   confidence (ask_question \<lparr>question = ''What is LIGO?'', top_k = Some 5, max_tokens = Some 500\<rparr>) = ''high'' \<and>
   py_in ''LIGO'' (answer (ask_question \<lparr>question = ''What is LIGO?'', top_k = Some 5, max_tokens = Some 500\<rparr>))"
proof -
  have "MOCK_DOCUMENTS \<noteq> []" using length_MOCK_DOCUMENTS by auto
  then show ?thesis
    by (simp add: ask_question_def what_is_ligo_docs Let_def length_MOCK_DOCUMENTS
        what_is_ligo_answer ligo_in_answer)
qed

text \<open>
  Claim C3: every response of \<^verbatim>\<open>POST /ask\<close> has
  \<^verbatim>\<open>sources_used == len(citations)\<close>, and its confidence is a function of
  \<^verbatim>\<open>sources_used\<close>: 0 gives \<^verbatim>\<open>"low"\<close>, with the fixed answer that no
  relevant information was found and no citation; 1 gives \<^verbatim>\<open>"medium"\<close>; 2 or
  more give \<^verbatim>\<open>"high"\<close>.
\<close>

theorem ask_question_confidence:
  "sources_used (ask_question request) = int (length (citations (ask_question request))) \<and>
   confidence (ask_question request) =
     (if sources_used (ask_question request) = 0 then ''low''
      else if sources_used (ask_question request) = 1 then ''medium''
      else ''high'') \<and>
   (sources_used (ask_question request) = 0 \<longrightarrow>
      answer (ask_question request) = NOT_FOUND_ANSWER \<and> citations (ask_question request) = [])"
proof (cases "get_mock_documents (question request) (top_k request) = []")
  case True
  then show ?thesis by (simp add: ask_question_def)
next
  case False
  then show ?thesis
    by (auto simp: ask_question_def Let_def build_citations_map dest: length_below_two)
qed

lemma nonsense_docs: "get_mock_documents ''asdfqwerty nonsense'' (Some 5) = []"
  by (simp add: get_mock_documents_def get_documents_from_def Let_def nonsense_filter
      py_slice_upto_def)

lemma what_is_ligo_first:
  "get_mock_documents ''What is LIGO?'' (Some 1) = [hd MOCK_DOCUMENTS]"
  by (simp add: get_mock_documents_def get_documents_from_def Let_def what_is_ligo_filter
      py_slice_upto_def) (simp add: MOCK_DOCUMENTS_def)

text \<open>
  The three cases on the fixture documents: a question that matches nothing, the
  test question cut to one result, and the test question with the default limit.
\<close>

theorem ask_question_confidence_witness:
  "(sources_used (ask_question \<lparr>question = ''asdfqwerty nonsense'', top_k = Some 5, max_tokens = Some 500\<rparr>) = 0 \<and>
    confidence (ask_question \<lparr>question = ''asdfqwerty nonsense'', top_k = Some 5, max_tokens = Some 500\<rparr>) = ''low'' \<and>
    answer (ask_question \<lparr>question = ''asdfqwerty nonsense'', top_k = Some 5, max_tokens = Some 500\<rparr>) = NOT_FOUND_ANSWER \<and>
    citations (ask_question \<lparr>question = ''asdfqwerty nonsense'', top_k = Some 5, max_tokens = Some 500\<rparr>) = []) \<and>
   (sources_used (ask_question \<lparr>question = ''What is LIGO?'', top_k = Some 1, max_tokens = Some 500\<rparr>) = 1 \<and>
    confidence (ask_question \<lparr>question = ''What is LIGO?'', top_k = Some 1, max_tokens = Some 500\<rparr>) = ''medium'') \<and>
   (sources_used (ask_question \<lparr>question = ''What is LIGO?'', top_k = Some 5, max_tokens = Some 500\<rparr>) = 3 \<and>
    confidence (ask_question \<lparr>question = ''What is LIGO?'', top_k = Some 5, max_tokens = Some 500\<rparr>) = ''high'')"
proof -
  have h0: "sources_used (ask_question \<lparr>question = ''asdfqwerty nonsense'', top_k = Some 5, max_tokens = Some 500\<rparr>) = 0"
    by (simp add: ask_question_def nonsense_docs)
  have h1: "sources_used (ask_question \<lparr>question = ''What is LIGO?'', top_k = Some 1, max_tokens = Some 500\<rparr>) = 1"
    by (simp add: ask_question_def what_is_ligo_first Let_def)
  have "MOCK_DOCUMENTS \<noteq> []" using length_MOCK_DOCUMENTS by auto
  then have h3: "sources_used (ask_question \<lparr>question = ''What is LIGO?'', top_k = Some 5, max_tokens = Some 500\<rparr>) = 3"
    by (simp add: ask_question_def what_is_ligo_docs Let_def length_MOCK_DOCUMENTS)
  from h0 h1 h3
    ask_question_confidence [of "\<lparr>question = ''asdfqwerty nonsense'', top_k = Some 5, max_tokens = Some 500\<rparr>"]
    ask_question_confidence [of "\<lparr>question = ''What is LIGO?'', top_k = Some 1, max_tokens = Some 500\<rparr>"]
    ask_question_confidence [of "\<lparr>question = ''What is LIGO?'', top_k = Some 5, max_tokens = Some 500\<rparr>"]
  show ?thesis by simp
qed

text \<open>
  Claim C9: when retrieval returns at least one document, the citations of the
  response are one per retrieved document, in retrieval order, with the fields
  copied from the document. The answer text plays no part: the rule that cites a
  title found in the answer is not used by this endpoint.
\<close>

theorem ask_question_citations:
  "get_mock_documents (question request) (top_k request) \<noteq> [] \<Longrightarrow>
   citations (ask_question request) =
     map (\<lambda>doc. \<lparr>cit_title = doc_title doc, cit_authors = Some (doc_authors doc),
                  cit_url = Some (doc_url doc), cit_year = Some (doc_year doc),
                  cit_source = doc_source doc\<rparr>)
         (get_mock_documents (question request) (top_k request))"
  by (simp add: ask_question_def Let_def build_citations_map)

lemma alogs_title_not_in_answer:
  "\<not> py_in (py_lower ''Understanding aLOGs'') (py_lower LIGO_ANSWER)"
  by code_simp

text \<open>
  On the test question all three fixture documents are cited, although the title of
  the third is not in the answer.
\<close>

theorem ask_question_citations_witness:
  "get_mock_documents ''What is LIGO?'' (Some 5) \<noteq> [] \<and>
   map cit_title (citations (ask_question \<lparr>question = ''What is LIGO?'', top_k = Some 5, max_tokens = Some 500\<rparr>)) =
     [''Introduction to LIGO'', ''Gravity Spy Citizen Science'', ''Understanding aLOGs''] \<and>
   \<not> py_in (py_lower ''Understanding aLOGs'')
        (py_lower (answer (ask_question \<lparr>question = ''What is LIGO?'', top_k = Some 5, max_tokens = Some 500\<rparr>)))"
proof -
  have ne: "get_mock_documents ''What is LIGO?'' (Some 5) \<noteq> []"
    using length_MOCK_DOCUMENTS by (auto simp: what_is_ligo_docs)
  have ans: "answer (ask_question \<lparr>question = ''What is LIGO?'', top_k = Some 5, max_tokens = Some 500\<rparr>) = LIGO_ANSWER"
    using ne by (simp add: ask_question_def Let_def what_is_ligo_answer)
  have "citations (ask_question \<lparr>question = ''What is LIGO?'', top_k = Some 5, max_tokens = Some 500\<rparr>) =
     map (\<lambda>doc. \<lparr>cit_title = doc_title doc, cit_authors = Some (doc_authors doc),
                  cit_url = Some (doc_url doc), cit_year = Some (doc_year doc),
                  cit_source = doc_source doc\<rparr>) MOCK_DOCUMENTS"
    using ask_question_citations [of "\<lparr>question = ''What is LIGO?'', top_k = Some 5, max_tokens = Some 500\<rparr>"] ne
    by (simp add: what_is_ligo_docs)
  then have "map cit_title (citations (ask_question \<lparr>question = ''What is LIGO?'', top_k = Some 5, max_tokens = Some 500\<rparr>)) =
     [''Introduction to LIGO'', ''Gravity Spy Citizen Science'', ''Understanding aLOGs'']"
    by (simp add: MOCK_DOCUMENTS_def)
  with ne ans alogs_title_not_in_answer show ?thesis by simp
qed

section \<open>Properties of retrieval\<close>

lemma filter_chunks_filter:
  "filter_chunks kws docs = filter (\<lambda>d. any_keyword kws (content d) (title d)) docs"
  by (induction docs) auto

lemma py_split_empty: "py_split (py_lower []) = []"
  by (simp add: py_split_def py_lower_def)

lemma laser_filter:
  "filter_docs (py_split (py_lower ''laser'')) MOCK_DOCUMENTS = [hd MOCK_DOCUMENTS]"
  by code_simp

lemma laser_filter_chunks:
  "filter_chunks (py_split (py_lower ''laser'')) mock_docs = [hd mock_docs]"
  by code_simp

text \<open>
  Claim C4: for every query, every limit \<open>top_k \<ge> 0\<close> and every document set,
  retrieval returns the documents for which some whitespace-delimited token of the
  lowercased query is a substring of the lowercased content or of the lowercased
  title, in the order of the document set, cut to the first \<open>top_k\<close>; the empty
  query returns nothing. This holds of the loop on any document list, of
  \<^verbatim>\<open>get_mock_documents\<close> on \<^verbatim>\<open>MOCK_DOCUMENTS\<close> and of
  \<^verbatim>\<open>DocumentRetriever._get_mock_documents\<close> on its own fixtures.
\<close>

theorem retrieval_keyword_match:
  "0 \<le> k \<Longrightarrow>
   get_documents_from store query (Some k) =
     take (nat k)
       (filter (\<lambda>d. \<exists>t. is_token (py_lower query) t \<and>
                   ((\<exists>a b. py_lower (doc_content d) = a @ t @ b) \<or>
                    (\<exists>a b. py_lower (doc_title d) = a @ t @ b))) store) \<and>
   length (get_documents_from store query (Some k)) \<le> nat k \<and>
   get_documents_from store [] (Some k) = [] \<and>
   get_mock_documents query (Some k) = get_documents_from MOCK_DOCUMENTS query (Some k) \<and>
   retriever_get_mock_documents query k =
     take (nat k)
       (filter (\<lambda>d. \<exists>t. is_token (py_lower query) t \<and>
                   ((\<exists>a b. py_lower (content d) = a @ t @ b) \<or>
                    (\<exists>a b. py_lower (title d) = a @ t @ b))) mock_docs) \<and>
   retriever_get_mock_documents [] k = []"
  by (simp add: get_documents_from_def get_mock_documents_def retriever_get_mock_documents_def
      Let_def py_slice_upto_def filter_docs_filter filter_chunks_filter any_keyword_iff
      py_in_iff py_split_empty bex_py_split is_token_Nil)

theorem retrieval_keyword_match_witness:
  "(0::int) \<le> 5 \<and>
   get_mock_documents ''laser'' (Some 5) = [hd MOCK_DOCUMENTS] \<and>
   [hd MOCK_DOCUMENTS] =
     take (nat 5)
       (filter (\<lambda>d. \<exists>t. is_token (py_lower ''laser'') t \<and>
                   ((\<exists>a b. py_lower (doc_content d) = a @ t @ b) \<or>
                    (\<exists>a b. py_lower (doc_title d) = a @ t @ b))) MOCK_DOCUMENTS) \<and>
   get_mock_documents [] (Some 5) = []"
proof -
  have h: "(0::int) \<le> 5" by simp
  have e: "get_mock_documents ''laser'' (Some 5) = [hd MOCK_DOCUMENTS]"
    by (simp add: get_mock_documents_def get_documents_from_def Let_def laser_filter
        py_slice_upto_def)
  from retrieval_keyword_match [OF h, of MOCK_DOCUMENTS "''laser''"] e
    retrieval_keyword_match [OF h, of MOCK_DOCUMENTS "[]"]
  show ?thesis by (simp add: get_mock_documents_def)
qed

text \<open>
  Claim C7: \<^verbatim>\<open>retrieve_documents\<close> returns a list of chunks whatever the
  search backend does, and when the backend raises, the result is the keyword
  retrieval on the three fixture chunks, cut to \<^verbatim>\<open>top_k\<close>.
\<close>

theorem retrieve_documents_never_raises:
  "(\<exists>docs. retrieve_documents search_client query k filters = Inr docs) \<and>
   (\<forall>e. search_client query k filters = Inl e \<longrightarrow>
      retrieve_documents search_client query k filters =
        Inr (py_slice_upto
               (filter (\<lambda>d. \<exists>t. is_token (py_lower query) t \<and>
                           ((\<exists>a b. py_lower (content d) = a @ t @ b) \<or>
                            (\<exists>a b. py_lower (title d) = a @ t @ b))) mock_docs)
               (Some k)) \<and>
      (0 \<le> k \<longrightarrow>
         retrieve_documents search_client query k filters =
           Inr (take (nat k)
                  (filter (\<lambda>d. \<exists>t. is_token (py_lower query) t \<and>
                              ((\<exists>a b. py_lower (content d) = a @ t @ b) \<or>
                               (\<exists>a b. py_lower (title d) = a @ t @ b))) mock_docs))))"
  by (auto simp: retrieve_documents_def retriever_get_mock_documents_def Let_def
      filter_chunks_filter any_keyword_iff py_in_iff py_slice_upto_def bex_py_split
      split: sum.splits)

theorem retrieve_documents_never_raises_witness:
  "(\<lambda>q n f. Inl (BackendError ''service unreachable'')) ''laser'' (5::int) (None :: (string \<times> pyval) list option)
      = (Inl (BackendError ''service unreachable'') :: py_error + search_result list) \<and>
   (0::int) \<le> 5 \<and>
   retrieve_documents (\<lambda>q n f. Inl (BackendError ''service unreachable'')) ''laser'' 5 None =
     Inr [hd mock_docs] \<and>
   [hd mock_docs] =
     take (nat 5)
       (filter (\<lambda>d. \<exists>t. is_token (py_lower ''laser'') t \<and>
                   ((\<exists>a b. py_lower (content d) = a @ t @ b) \<or>
                    (\<exists>a b. py_lower (title d) = a @ t @ b))) mock_docs)"
proof -
  have e: "retrieve_documents (\<lambda>q n f. Inl (BackendError ''service unreachable'')) ''laser'' 5 None =
     Inr [hd mock_docs]"
    by (simp add: retrieve_documents_def retriever_get_mock_documents_def Let_def
        laser_filter_chunks py_slice_upto_def)
  from retrieve_documents_never_raises
    [of "\<lambda>q n f. Inl (BackendError ''service unreachable'')" "''laser''" 5 None] e
  show ?thesis by (simp add: py_slice_upto_def)
qed

section \<open>Properties of app/prompts.py\<close>

lemma extract_loop_filter:
  "extract_loop acc response docs =
     acc @ map (\<lambda>doc. \<lparr>entry_title = title doc, entry_authors = authors doc,
                       entry_url = url doc, entry_year = year doc,
                       entry_source = source doc, relevance_score = score doc\<rparr>)
             (filter (\<lambda>doc. py_in (py_lower (title doc)) (py_lower response)) docs)"
  by (induction docs arbitrary: acc) auto

text \<open>
  Claim C5: \<^verbatim>\<open>extract_citations\<close> returns a citation for a chunk if and only if
  the lowercased title of the chunk is a substring of the lowercased answer; the
  citations are in the order of the chunks, with the fields of the chunk and its
  \<^verbatim>\<open>score\<close> attribute, when it has one, as \<^verbatim>\<open>relevance_score\<close>.
\<close>

theorem extract_citations_policy:
  "extract_citations response docs =
     map (\<lambda>doc. \<lparr>entry_title = title doc, entry_authors = authors doc,
                  entry_url = url doc, entry_year = year doc,
                  entry_source = source doc, relevance_score = score doc\<rparr>)
         (filter (\<lambda>doc. \<exists>a b. py_lower response = a @ py_lower (title doc) @ b) docs)"
  by (simp add: extract_citations_def extract_loop_filter py_in_iff)

text \<open>
  The test of the repository: of two chunks, the answer names the title of the
  first only, in another case, and the first alone is cited.
\<close>

theorem extract_citations_policy_witness:
  "map entry_title
     (extract_citations
        ''LIGO is a gravitational wave detector as mentioned in the LIGO Overview document.''
        [\<lparr>chunk_id = ''test-1'', content = ''LIGO is a gravitational wave detector.'',
          title = ''LIGO Overview'', authors = Some ''LIGO Collaboration'',
          url = Some ''https://www.ligo.org'', year = Some 2023,
          source = ''LIGO Documentation'', chunk_index = 1, metadata = None, score = None\<rparr>,
         \<lparr>chunk_id = ''test-2'', content = ''Gravity Spy helps classify glitches in LIGO data.'',
          title = ''Gravity Spy Project'', authors = Some ''Gravity Spy Team'',
          url = Some ''https://www.zooniverse.org/projects/zooniverse/gravity-spy'',
          year = Some 2024, source = ''Zooniverse'', chunk_index = 1, metadata = None,
          score = None\<rparr>]) =
   [''LIGO Overview'']"
proof -
  have e1: "py_in (py_lower ''LIGO Overview'')
      (py_lower ''LIGO is a gravitational wave detector as mentioned in the LIGO Overview document.'')"
    by code_simp
  have e2: "\<not> py_in (py_lower ''Gravity Spy Project'')
      (py_lower ''LIGO is a gravitational wave detector as mentioned in the LIGO Overview document.'')"
    by code_simp
  from e1 e2 extract_citations_policy
    [of "''LIGO is a gravitational wave detector as mentioned in the LIGO Overview document.''"
        "[\<lparr>chunk_id = ''test-1'', content = ''LIGO is a gravitational wave detector.'',
          title = ''LIGO Overview'', authors = Some ''LIGO Collaboration'',
          url = Some ''https://www.ligo.org'', year = Some 2023,
          source = ''LIGO Documentation'', chunk_index = 1, metadata = None, score = None\<rparr>,
         \<lparr>chunk_id = ''test-2'', content = ''Gravity Spy helps classify glitches in LIGO data.'',
          title = ''Gravity Spy Project'', authors = Some ''Gravity Spy Team'',
          url = Some ''https://www.zooniverse.org/projects/zooniverse/gravity-spy'',
          year = Some 2024, source = ''Zooniverse'', chunk_index = 1, metadata = None,
          score = None\<rparr>]"]
  show ?thesis by (simp add: py_in_iff)
qed

text \<open>
  Claim C1 says that \<^verbatim>\<open>create_rag_prompts\<close> never fails and returns the two
  prompts. The code raises on every input: the f-string of the user prompt names
  \<^verbatim>\<open>DATA_DELIMITER\<close> bare, the name is an attribute of the class and bound
  neither in the method nor in the module, hence the \<^verbatim>\<open>NameError\<close>.
\<close>

theorem create_rag_prompts_raises:
  "create_rag_prompts q retrieved_docs = Inl (NameError ''DATA_DELIMITER'')"
  by (simp add: create_rag_prompts_def Let_def user_prompt_template_def lookup_name_def
      prompts_globals_def)

section \<open>Properties of splitting, stripping and integer parsing\<close>

lemma split_sep_acc_not_empty: "split_sep_acc sep cur s \<noteq> []"
  by (induction sep cur s rule: split_sep_acc.induct) auto

lemma py_index_first: "\<exists>x. py_index (split_sep_acc sep cur s) 0 = Inr x"
  using split_sep_acc_not_empty [of sep cur s] by (simp add: py_index_def)

text \<open>The first piece of a split at one character: the text before its first occurrence.\<close>

lemma split_sep_acc_char_hd:
  "split_sep_acc [k] cur s ! 0 = cur @ takeWhile (\<lambda>c. c \<noteq> k) s"
  by (induction "[k]" cur s rule: split_sep_acc.induct) auto

lemma py_index_split_char:
  "py_index (py_split_sep [k] s) 0 = Inr (takeWhile (\<lambda>c. c \<noteq> k) s)"
  using split_sep_acc_not_empty [of "[k]" "[]" s] split_sep_acc_char_hd [of k "[]" s]
  by (simp add: py_index_def py_split_sep_def)

lemma dropWhile_keeps: "x \<in> set xs \<Longrightarrow> \<not> P x \<Longrightarrow> x \<in> set (dropWhile P xs)"
  by (induction xs) auto

lemma py_strip_keeps: "c \<in> set s \<Longrightarrow> \<not> py_isspace c \<Longrightarrow> c \<in> set (py_strip s)"
  by (simp add: py_strip_def dropWhile_keeps)

lemma dropWhile_none: "\<forall>x\<in>set xs. \<not> P x \<Longrightarrow> dropWhile P xs = xs"
  by (cases xs) auto

lemma py_strip_no_space: "\<forall>c\<in>set s. \<not> py_isspace c \<Longrightarrow> py_strip s = s"
  by (simp add: py_strip_def dropWhile_none)

lemma dropWhile_all: "(\<forall>x\<in>set (dropWhile P xs). P x) \<longleftrightarrow> (\<forall>x\<in>set xs. P x)"
  by (induction xs) auto

lemma py_strip_empty_iff: "py_strip s = [] \<longleftrightarrow> (\<forall>c\<in>set s. py_isspace c)"
  by (simp add: py_strip_def dropWhile_eq_Nil_conv dropWhile_all)

text \<open>Digits, signs and whitespace are distinct ASCII characters.\<close>

lemma digit_of_digit: "is_digit c \<Longrightarrow> \<exists>v. digit_of c = Some v"
  by (auto simp: digit_of_def is_digit_def)

lemma digit_of_Some: "digit_of c = Some v \<Longrightarrow> is_digit c"
  by (auto simp: digit_of_def is_digit_def split: if_splits)

lemma digit_not_underscore: "is_digit c \<Longrightarrow> c \<noteq> CHR ''_''"
  by (auto simp: is_digit_def)

lemma digit_not_sign: "is_digit c \<Longrightarrow> c \<noteq> CHR ''-'' \<and> c \<noteq> CHR ''+''"
  by (auto simp: is_digit_def)

lemma digit_not_int_space: "is_digit c \<Longrightarrow> \<not> int_isspace c"
  by (auto simp: is_digit_def int_isspace_def)

lemma digit_ascii: "is_digit c \<Longrightarrow> is_ascii_char c"
  by (auto simp: is_digit_def)

lemma int_space_ascii: "int_isspace c \<Longrightarrow> is_ascii_char c"
  by (auto simp: int_isspace_def)

lemma sign_not_digit: "\<not> is_digit CHR ''+''" "\<not> is_digit CHR ''-''" "\<not> is_digit CHR ''_''"
  by (simp_all add: is_digit_def)

lemma sign_not_int_space: "\<not> int_isspace CHR ''+''" "\<not> int_isspace CHR ''-''"
  by (simp_all add: int_isspace_def)

lemma decimal_numeral_alt: "decimal_numeral g \<longleftrightarrow> g \<noteq> [] \<and> (\<forall>c\<in>set g. is_digit c)"
  by (simp add: decimal_numeral_def is_digit_def)

text \<open>The digits and underscores that \<open>parse_digits\<close> accepts.\<close>

lemma parse_digits_run:
  "\<forall>c\<in>set d. is_digit c \<Longrightarrow> \<exists>acc'. parse_digits acc (d @ r) = parse_digits acc' r"
proof (induction d arbitrary: acc)
  case Nil
  show ?case by auto
next
  case (Cons c d)
  then have c: "is_digit c" by simp
  then obtain v where v: "digit_of c = Some v" using digit_of_digit by blast
  from Cons obtain acc' where "parse_digits (acc * 10 + v) (d @ r) = parse_digits acc' r"
    by fastforce
  with v digit_not_underscore [OF c] show ?case by auto
qed

lemma parse_digits_groups:
  "\<forall>h\<in>set gs. decimal_numeral h \<Longrightarrow>
   \<exists>n. parse_digits acc (concat (map ((#) CHR ''_'') gs)) = Some n"
proof (induction gs arbitrary: acc)
  case Nil
  show ?case by simp
next
  case (Cons h gs)
  then have "decimal_numeral h" by simp
  then obtain d0 h' where h: "h = d0 # h'" and d0: "is_digit d0" and h': "\<forall>c\<in>set h'. is_digit c"
    unfolding decimal_numeral_alt by (cases h) auto
  obtain v where v: "digit_of d0 = Some v" using digit_of_digit [OF d0] by blast
  let ?R = "concat (map ((#) CHR ''_'') gs)"
  obtain acc' where run: "parse_digits (acc * 10 + v) (h' @ ?R) = parse_digits acc' ?R"
    using parse_digits_run [OF h'] by blast
  from Cons obtain n where "parse_digits acc' ?R = Some n" by fastforce
  with run v h show ?case by simp
qed

lemma parse_unsigned_body:
  assumes "decimal_numeral g" and "\<forall>h\<in>set gs. decimal_numeral h"
  shows "\<exists>n. parse_unsigned (g @ concat (map ((#) CHR ''_'') gs)) = Some n"
proof -
  from assms(1) obtain c d where g: "g = c # d" and c: "is_digit c" and d: "\<forall>x\<in>set d. is_digit x"
    unfolding decimal_numeral_alt by (cases g) auto
  obtain v where v: "digit_of c = Some v" using digit_of_digit [OF c] by blast
  let ?R = "concat (map ((#) CHR ''_'') gs)"
  obtain acc' where "parse_digits v (d @ ?R) = parse_digits acc' ?R"
    using parse_digits_run [OF d] by blast
  moreover obtain n where "parse_digits acc' ?R = Some n"
    using parse_digits_groups [OF assms(2)] by blast
  ultimately show ?thesis using g v by (simp add: parse_unsigned_def)
qed

lemma parse_digits_conv:
  "parse_digits acc s = Some n \<Longrightarrow>
   \<exists>d gs. s = d @ concat (map ((#) CHR ''_'') gs) \<and> (\<forall>c\<in>set d. is_digit c) \<and>
          (\<forall>h\<in>set gs. decimal_numeral h)"
proof (induction acc s arbitrary: n rule: parse_digits.induct)
  case (1 acc)
  have "[] = [] @ concat (map ((#) CHR ''_'') [])" by simp
  then show ?case by (metis empty_iff list.set(1))
next
  case (2 acc c cs)
  show ?case
  proof (cases "c = CHR ''_''")
    case True
    with "2.prems" obtain d0 ds v where cs: "cs = d0 # ds" and v: "digit_of d0 = Some v"
      and rest: "parse_digits (acc * 10 + v) ds = Some n"
      by (auto split: list.splits option.splits)
    from "2.IH"(1) [OF True cs v rest] obtain d gs where
      ds: "ds = d @ concat (map ((#) CHR ''_'') gs)" and d: "\<forall>x\<in>set d. is_digit x"
      and gs: "\<forall>h\<in>set gs. decimal_numeral h"
      by blast
    have "decimal_numeral (d0 # d)"
      unfolding decimal_numeral_alt using d digit_of_Some [OF v] by simp
    with gs have all: "\<forall>h\<in>set ((d0 # d) # gs). decimal_numeral h" by simp
    have "c # cs = [] @ concat (map ((#) CHR ''_'') ((d0 # d) # gs))"
      using True cs ds by simp
    moreover have "\<forall>x\<in>set ([] :: string). is_digit x" by simp
    ultimately show ?thesis using all by blast
  next
    case False
    with "2.prems" obtain v where v: "digit_of c = Some v"
      and rest: "parse_digits (acc * 10 + v) cs = Some n"
      by (auto split: option.splits)
    from "2.IH"(2) [OF False v rest] obtain d gs where
      cs: "cs = d @ concat (map ((#) CHR ''_'') gs)" and d: "\<forall>x\<in>set d. is_digit x"
      and gs: "\<forall>h\<in>set gs. decimal_numeral h"
      by blast
    have "c # cs = (c # d) @ concat (map ((#) CHR ''_'') gs)" using cs by simp
    moreover have "\<forall>x\<in>set (c # d). is_digit x" using d digit_of_Some [OF v] by simp
    ultimately show ?thesis using gs by blast
  qed
qed

lemma parse_unsigned_conv:
  assumes "parse_unsigned s = Some n"
  shows "\<exists>g gs. s = g @ concat (map ((#) CHR ''_'') gs) \<and> decimal_numeral g \<and>
          (\<forall>h\<in>set gs. decimal_numeral h)"
proof -
  from assms obtain c cs v where s: "s = c # cs" and v: "digit_of c = Some v"
    and rest: "parse_digits v cs = Some n"
    by (auto simp: parse_unsigned_def split: list.splits option.splits)
  from parse_digits_conv [OF rest] obtain d gs where
    cs: "cs = d @ concat (map ((#) CHR ''_'') gs)" and d: "\<forall>x\<in>set d. is_digit x"
    and gs: "\<forall>h\<in>set gs. decimal_numeral h"
    by blast
  have "s = (c # d) @ concat (map ((#) CHR ''_'') gs)" using s cs by simp
  moreover have "decimal_numeral (c # d)"
    unfolding decimal_numeral_alt using d digit_of_Some [OF v] by simp
  ultimately show ?thesis using gs by blast
qed

lemma parse_signed_conv:
  assumes "parse_signed t = Some v"
  shows "\<exists>sg g gs. t = sg @ g @ concat (map ((#) CHR ''_'') gs) \<and>
          (sg = [] \<or> sg = ''+'' \<or> sg = ''-'') \<and> decimal_numeral g \<and>
          (\<forall>h\<in>set gs. decimal_numeral h)"
proof -
  from assms obtain c cs where t: "t = c # cs"
    by (cases t) (auto simp: parse_signed_def)
  consider (minus) "c = CHR ''-''" | (plus) "c = CHR ''+''" | (none) "c \<noteq> CHR ''-''" "c \<noteq> CHR ''+''"
    by blast
  then show ?thesis
  proof cases
    case minus
    with assms t obtain n where "parse_unsigned cs = Some n"
      by (auto simp: parse_signed_def)
    from parse_unsigned_conv [OF this] obtain g gs where
      "cs = g @ concat (map ((#) CHR ''_'') gs)" "decimal_numeral g" "\<forall>h\<in>set gs. decimal_numeral h"
      by blast
    with minus t have "t = ''-'' @ g @ concat (map ((#) CHR ''_'') gs) \<and>
      decimal_numeral g \<and> (\<forall>h\<in>set gs. decimal_numeral h)" by simp
    then show ?thesis by blast
  next
    case plus
    with assms t obtain n where "parse_unsigned cs = Some n"
      by (auto simp: parse_signed_def)
    from parse_unsigned_conv [OF this] obtain g gs where
      "cs = g @ concat (map ((#) CHR ''_'') gs)" "decimal_numeral g" "\<forall>h\<in>set gs. decimal_numeral h"
      by blast
    with plus t have "t = ''+'' @ g @ concat (map ((#) CHR ''_'') gs) \<and>
      decimal_numeral g \<and> (\<forall>h\<in>set gs. decimal_numeral h)" by simp
    then show ?thesis by blast
  next
    case none
    with assms t obtain n where "parse_unsigned t = Some n"
      by (auto simp: parse_signed_def)
    from parse_unsigned_conv [OF this] obtain g gs where
      "t = g @ concat (map ((#) CHR ''_'') gs)" "decimal_numeral g" "\<forall>h\<in>set gs. decimal_numeral h"
      by blast
    then have "t = [] @ g @ concat (map ((#) CHR ''_'') gs) \<and>
      decimal_numeral g \<and> (\<forall>h\<in>set gs. decimal_numeral h)" by simp
    then show ?thesis by blast
  qed
qed

lemma parse_signed_body:
  assumes "sg = [] \<or> sg = ''+'' \<or> sg = ''-''"
    and "decimal_numeral g" and "\<forall>h\<in>set gs. decimal_numeral h"
  shows "\<exists>v. parse_signed (sg @ g @ concat (map ((#) CHR ''_'') gs)) = Some v"
proof -
  obtain n where n: "parse_unsigned (g @ concat (map ((#) CHR ''_'') gs)) = Some n"
    using parse_unsigned_body [OF assms(2,3)] by blast
  from assms(2) obtain c d where g: "g = c # d" and c: "is_digit c"
    unfolding decimal_numeral_alt by (cases g) auto
  from assms(1) show ?thesis
  proof (elim disjE)
    assume "sg = []"
    with n g digit_not_sign [OF c] show ?thesis by (simp add: parse_signed_def)
  next
    assume "sg = ''+''"
    with n show ?thesis by (simp add: parse_signed_def)
  next
    assume "sg = ''-''"
    with n show ?thesis by (simp add: parse_signed_def)
  qed
qed


text \<open>What \<open>int_strip\<close> removes.\<close>

lemma int_strip_decomp:
  "\<exists>w1 w2. s = w1 @ int_strip s @ w2 \<and> (\<forall>c\<in>set w1. int_isspace c) \<and>
           (\<forall>c\<in>set w2. int_isspace c)"
proof -
  let ?z = "dropWhile int_isspace s"
  let ?w1 = "takeWhile int_isspace s"
  let ?w2 = "rev (takeWhile int_isspace (rev ?z))"
  have e: "takeWhile int_isspace (rev ?z) @ dropWhile int_isspace (rev ?z) = rev ?z"
    by (rule takeWhile_dropWhile_id)
  have "?z = rev (rev ?z)" by (rule rev_rev_ident [symmetric])
  also have "\<dots> = rev (takeWhile int_isspace (rev ?z) @ dropWhile int_isspace (rev ?z))"
    by (subst e) (rule refl)
  also have "\<dots> = rev (dropWhile int_isspace (rev ?z)) @ rev (takeWhile int_isspace (rev ?z))"
    by (rule rev_append)
  finally have z: "?z = int_strip s @ ?w2" unfolding int_strip_def .
  have "s = ?w1 @ ?z" by simp
  with z have "s = ?w1 @ int_strip s @ ?w2" by simp
  moreover have "\<forall>c\<in>set ?w1. int_isspace c" by (auto dest: set_takeWhileD)
  moreover have "\<forall>c\<in>set ?w2. int_isspace c" by (auto dest: set_takeWhileD)
  ultimately show ?thesis by blast
qed

lemma int_strip_core:
  assumes "t \<noteq> []" and "\<not> int_isspace (hd t)" and "\<not> int_isspace (last t)"
    and "\<forall>c\<in>set w1. int_isspace c" and "\<forall>c\<in>set w2. int_isspace c"
  shows "int_strip (w1 @ t @ w2) = t"
proof -
  have "dropWhile int_isspace (w1 @ t @ w2) = dropWhile int_isspace (t @ w2)"
    by (rule dropWhile_append2) (use assms(4) in blast)
  also have "\<dots> = t @ w2" using assms(1,2) by (cases t) auto
  finally have a: "dropWhile int_isspace (w1 @ t @ w2) = t @ w2" .
  have "dropWhile int_isspace (rev w2 @ rev t) = dropWhile int_isspace (rev t)"
    by (rule dropWhile_append2) (use assms(5) in simp)
  then have "dropWhile int_isspace (rev (t @ w2)) = dropWhile int_isspace (rev t)"
    by (simp only: rev_append)
  also have "\<dots> = rev t" using assms(1,3) by (cases "rev t") (auto simp: hd_rev)
  finally have "dropWhile int_isspace (rev (t @ w2)) = rev t" .
  with a show ?thesis by (simp add: int_strip_def)
qed

text \<open>The digits of a literal.\<close>

lemma filter_digit_groups:
  "\<forall>h\<in>set gs. decimal_numeral h \<Longrightarrow>
   filter is_digit (concat (map ((#) CHR ''_'') gs)) = concat gs"
  by (induction gs) (auto simp: decimal_numeral_alt sign_not_digit)

lemma filter_digit_literal:
  assumes "sg = [] \<or> sg = ''+'' \<or> sg = ''-''"
    and "decimal_numeral g" and "\<forall>h\<in>set gs. decimal_numeral h"
  shows "filter is_digit (sg @ g @ concat (map ((#) CHR ''_'') gs)) = g @ concat gs"
proof -
  have "filter is_digit sg = []" using assms(1) sign_not_digit by auto
  moreover have "filter is_digit g = g" using assms(2) by (simp add: decimal_numeral_alt)
  ultimately show ?thesis using filter_digit_groups [OF assms(3)] by simp
qed

lemma literal_ends:
  assumes "sg = [] \<or> sg = ''+'' \<or> sg = ''-''"
    and "decimal_numeral g" and "\<forall>h\<in>set gs. decimal_numeral h"
  shows "sg @ g @ concat (map ((#) CHR ''_'') gs) \<noteq> []"
    and "\<not> int_isspace (hd (sg @ g @ concat (map ((#) CHR ''_'') gs)))"
    and "\<not> int_isspace (last (sg @ g @ concat (map ((#) CHR ''_'') gs)))"
    and "list_all is_ascii_char (sg @ g @ concat (map ((#) CHR ''_'') gs))"
proof -
  from assms(2) have g: "g \<noteq> []" and gd: "\<forall>c\<in>set g. is_digit c"
    by (simp_all add: decimal_numeral_alt)
  show "sg @ g @ concat (map ((#) CHR ''_'') gs) \<noteq> []" using g by simp
  have "is_digit (hd g)" using g gd by simp
  then have "\<not> int_isspace (hd g)" by (rule digit_not_int_space)
  then show "\<not> int_isspace (hd (sg @ g @ concat (map ((#) CHR ''_'') gs)))"
    using assms(1) g sign_not_int_space by auto
  have "is_digit (last (g @ concat (map ((#) CHR ''_'') gs)))"
  proof (cases gs rule: rev_cases)
    case Nil
    then show ?thesis using g gd by simp
  next
    case (snoc gs' h)
    with assms(3) have "h \<noteq> []" and "\<forall>c\<in>set h. is_digit c"
      by (simp_all add: decimal_numeral_alt)
    with snoc show ?thesis by simp
  qed
  then have "\<not> int_isspace (last (g @ concat (map ((#) CHR ''_'') gs)))"
    by (rule digit_not_int_space)
  then show "\<not> int_isspace (last (sg @ g @ concat (map ((#) CHR ''_'') gs)))"
    using g by simp
  have "list_all is_ascii_char sg" using assms(1) by auto
  moreover have "list_all is_ascii_char g" using gd digit_ascii by (simp add: list_all_iff)
  moreover have "list_all is_ascii_char (concat (map ((#) CHR ''_'') gs))"
    using assms(3) digit_ascii by (induction gs) (auto simp: decimal_numeral_alt list_all_iff)
  ultimately show "list_all is_ascii_char (sg @ g @ concat (map ((#) CHR ''_'') gs))"
    by simp
qed

text \<open>
  On ASCII strings \<^verbatim>\<open>int\<close> returns a number exactly on the integer literals, and
  raises \<^verbatim>\<open>ValueError\<close> on everything else.
\<close>

lemma py_int_literal:
  assumes "is_int_literal y"
  shows "is_ascii y \<and> (\<exists>n. py_int unicode_int y = Inr n)"
proof -
  from assms obtain w1 sg g gs w2 where
    y: "y = w1 @ sg @ g @ concat (map ((#) CHR ''_'') gs) @ w2"
    and w1: "\<forall>c\<in>set w1. int_isspace c" and w2: "\<forall>c\<in>set w2. int_isspace c"
    and sg: "sg = [] \<or> sg = ''+'' \<or> sg = ''-''"
    and g: "decimal_numeral g" and gs: "\<forall>h\<in>set gs. decimal_numeral h"
    and len: "length g + length (concat gs) \<le> 4300"
    unfolding is_int_literal_def by blast
  let ?t = "sg @ g @ concat (map ((#) CHR ''_'') gs)"
  have y': "y = w1 @ ?t @ w2" using y by simp
  have strip: "int_strip y = ?t"
    unfolding y' using literal_ends(1-3) [OF sg g gs] w1 w2 by (rule int_strip_core)
  have "list_all is_ascii_char w1" using w1 int_space_ascii by (simp add: list_all_iff)
  moreover have "list_all is_ascii_char w2" using w2 int_space_ascii by (simp add: list_all_iff)
  moreover note literal_ends(4) [OF sg g gs]
  ultimately have ascii: "is_ascii y"
    unfolding y' is_ascii_def by (simp only: list_all_append simp_thms)
  obtain v where v: "parse_signed ?t = Some v" using parse_signed_body [OF sg g gs] by blast
  have "length (filter is_digit ?t) = length g + length (concat gs)"
    using filter_digit_literal [OF sg g gs] by simp
  with len have "\<not> int_max_str_digits < length (filter is_digit ?t)"
    by (simp add: int_max_str_digits_def)
  with ascii strip v have "py_int unicode_int y = Inr v" by (simp add: py_int_def)
  with ascii show ?thesis by blast
qed

lemma py_int_success:
  assumes "is_ascii y" and "py_int unicode_int y = Inr n"
  shows "is_int_literal y"
proof -
  from assms obtain v where v: "parse_signed (int_strip y) = Some v"
    and len: "\<not> int_max_str_digits < length (filter is_digit (int_strip y))"
    by (auto simp: py_int_def split: option.splits if_splits)
  from parse_signed_conv [OF v] obtain sg g gs where
    t: "int_strip y = sg @ g @ concat (map ((#) CHR ''_'') gs)"
    and sg: "sg = [] \<or> sg = ''+'' \<or> sg = ''-''"
    and g: "decimal_numeral g" and gs: "\<forall>h\<in>set gs. decimal_numeral h"
    by blast
  have "length (filter is_digit (int_strip y)) = length g + length (concat gs)"
    unfolding t using filter_digit_literal [OF sg g gs] by simp
  with len have bound: "length g + length (concat gs) \<le> 4300"
    by (simp add: int_max_str_digits_def)
  obtain w1 w2 where "y = w1 @ int_strip y @ w2"
    and w1: "\<forall>c\<in>set w1. int_isspace c" and w2: "\<forall>c\<in>set w2. int_isspace c"
    using int_strip_decomp by blast
  with t have "y = w1 @ sg @ g @ concat (map ((#) CHR ''_'') gs) @ w2" by simp
  with w1 w2 sg g gs bound show ?thesis unfolding is_int_literal_def by blast
qed

lemma py_int_iff:
  "is_ascii y \<Longrightarrow> (\<exists>n. py_int unicode_int y = Inr n) \<longleftrightarrow> is_int_literal y"
  using py_int_literal py_int_success by blast

lemma py_int_raises:
  assumes "is_ascii y" and "\<not> is_int_literal y"
  shows "py_int unicode_int y = Inl (ValueError y)"
proof -
  have "\<not> (\<exists>n. py_int unicode_int y = Inr n)" using assms py_int_success by blast
  with assms(1) show ?thesis
    by (auto simp: py_int_def split: option.splits if_splits)
qed

text \<open>A decimal numeral is a literal up to the limit of 4300 digits, and refused beyond.\<close>

lemma numeral_literal:
  assumes "decimal_numeral y" and "length y \<le> 4300"
  shows "is_int_literal y"
proof -
  have "y = [] @ [] @ y @ concat (map ((#) CHR ''_'') []) @ []" by simp
  moreover have "\<forall>c\<in>set ([] :: string). int_isspace c" by simp
  moreover have "\<forall>h\<in>set ([] :: string list). decimal_numeral h" by simp
  moreover have "length y + length (concat ([] :: string list)) \<le> 4300" using assms(2) by simp
  ultimately show ?thesis unfolding is_int_literal_def using assms(1) by blast
qed

lemma long_numeral_raises:
  assumes "decimal_numeral y" and "4300 < length y"
  shows "py_int unicode_int y = Inl (ValueError y)"
proof -
  from assms(1) have d: "\<forall>c\<in>set y. is_digit c" and ne: "y \<noteq> []"
    by (simp_all add: decimal_numeral_alt)
  have ascii: "is_ascii y" using d digit_ascii by (simp add: is_ascii_def list_all_iff)
  have "\<forall>c\<in>set y. \<not> int_isspace c" using d digit_not_int_space by blast
  then have strip: "int_strip y = y" by (simp add: int_strip_def dropWhile_none)
  have "filter is_digit y = y" using d by simp
  with assms(2) have "int_max_str_digits < length (filter is_digit (int_strip y))"
    by (simp add: strip int_max_str_digits_def)
  with ascii show ?thesis by (simp add: py_int_def split: option.splits)
qed

section \<open>Properties of ingestion/zotero_sync.py\<close>

lemma any_pdf_iff:
  "any_pdf atts \<longleftrightarrow> (\<exists>att\<in>set atts. contentType att = Some ''application/pdf'')"
  by (induction atts) auto

lemma year_of_date_eq:
  "year_of_date d =
     Inr (if get_str d = [] then PyNone
          else PyStr (takeWhile (\<lambda>c. c \<noteq> CHR ''-'') (get_str d)))"
  by (simp add: year_of_date_def py_index_split_char)

lemma process_zotero_item_eq:
  "process_zotero_item item =
     Inr \<lparr>item_id = get_str (item_key item),
          item_title = get_str (data_title (item_data item)),
          item_authors = extract_authors (item_data item),
          item_year = (if get_str (data_date (item_data item)) = [] then PyNone
                       else PyStr (takeWhile (\<lambda>c. c \<noteq> CHR ''-'')
                                     (get_str (data_date (item_data item))))),
          item_url = get_str (data_url (item_data item)),
          item_abstract = get_str (abstractNote (item_data item)),
          item_type = get_str (itemType (item_data item)),
          item_source = ''Zotero'',
          raw_data = Some (item_data item)\<rparr>"
  by (simp add: process_zotero_item_def Let_def year_of_date_eq)

lemma process_loop_eq:
  "process_loop acc items =
     Inr (acc @ map (\<lambda>item. projr (process_zotero_item item)) (filter is_valid_item items))"
  by (induction items arbitrary: acc) (auto simp: process_zotero_item_eq)

lemma sync_zotero_items_eq:
  "sync_zotero_items (Inr items) =
     map (\<lambda>item. projr (process_zotero_item item)) (filter is_valid_item items)"
  by (simp add: sync_zotero_items_def process_loop_eq)

lemma webpage_not_valid:
  "itemType (item_data item) = Some ''webpage'' \<Longrightarrow> \<not> is_valid_item item"
  by (simp add: is_valid_item_def Let_def get_str_def valid_types_def)

text \<open>
  Claim C8: the filter accepts an item if and only if its type is one of
  \<^verbatim>\<open>journalArticle\<close>, \<^verbatim>\<open>book\<close>, \<^verbatim>\<open>bookSection\<close>, \<^verbatim>\<open>report\<close>,
  \<^verbatim>\<open>thesis\<close>, \<^verbatim>\<open>document\<close>, its title is not empty once stripped of
  whitespace, and it has an attachment of content type \<^verbatim>\<open>application/pdf\<close>
  or a non-empty URL. An item of type \<^verbatim>\<open>webpage\<close> is refused whatever its
  title and URL, and leaves no trace in the processed items nor in the chunks made
  from them.
\<close>

theorem is_valid_item_iff:
  "(is_valid_item item \<longleftrightarrow>
      get_str (itemType (item_data item)) \<in>
        {''journalArticle'', ''book'', ''bookSection'', ''report'', ''thesis'', ''document''} \<and>
      py_strip (get_str (data_title (item_data item))) \<noteq> [] \<and>
      ((\<exists>att\<in>set (attachments item). contentType att = Some ''application/pdf'') \<or>
       get_str (data_url (item_data item)) \<noteq> [])) \<and>
   (itemType (item_data item) = Some ''webpage'' \<longrightarrow>
      \<not> is_valid_item item \<and>
      sync_zotero_items (Inr (before @ item # rest)) = sync_zotero_items (Inr (before @ rest)) \<and>
      create_document_chunks unicode_int (sync_zotero_items (Inr (before @ item # rest))) =
        create_document_chunks unicode_int (sync_zotero_items (Inr (before @ rest))))"
proof -
  have iff: "is_valid_item item \<longleftrightarrow>
      get_str (itemType (item_data item)) \<in>
        {''journalArticle'', ''book'', ''bookSection'', ''report'', ''thesis'', ''document''} \<and>
      py_strip (get_str (data_title (item_data item))) \<noteq> [] \<and>
      ((\<exists>att\<in>set (attachments item). contentType att = Some ''application/pdf'') \<or>
       get_str (data_url (item_data item)) \<noteq> [])"
    by (simp add: is_valid_item_def Let_def valid_types_def any_pdf_iff)
  have web: "itemType (item_data item) = Some ''webpage'' \<Longrightarrow>
      sync_zotero_items (Inr (before @ item # rest)) = sync_zotero_items (Inr (before @ rest))"
    using webpage_not_valid [of item] by (simp add: sync_zotero_items_eq)
  from iff web webpage_not_valid [of item] show ?thesis by simp
qed

theorem is_valid_item_iff_witness:
  "itemType (item_data \<lparr>item_key = Some ''W1'',
       item_data = \<lparr>itemType = Some ''webpage'', data_title = Some ''LIGO news'',
                    data_url = Some ''https://www.ligo.org/news'', data_date = Some ''2024-03-01'',
                    abstractNote = None, creators = []\<rparr>,
       attachments = []\<rparr>) = Some ''webpage'' \<and>
   \<not> is_valid_item \<lparr>item_key = Some ''W1'',
       item_data = \<lparr>itemType = Some ''webpage'', data_title = Some ''LIGO news'',
                    data_url = Some ''https://www.ligo.org/news'', data_date = Some ''2024-03-01'',
                    abstractNote = None, creators = []\<rparr>,
       attachments = []\<rparr> \<and>
   create_document_chunks (\<lambda>s. Inl (ValueError s)) (sync_zotero_items (Inr ([] @
     \<lparr>item_key = Some ''W1'',
       item_data = \<lparr>itemType = Some ''webpage'', data_title = Some ''LIGO news'',
                    data_url = Some ''https://www.ligo.org/news'', data_date = Some ''2024-03-01'',
                    abstractNote = None, creators = []\<rparr>,
       attachments = []\<rparr> # []))) = Inr [] \<and>
   is_valid_item \<lparr>item_key = Some ''A1'',
       item_data = \<lparr>itemType = Some ''report'', data_title = Some ''LIGO report'',
                    data_url = Some ''https://www.ligo.org/report'', data_date = None,
                    abstractNote = None, creators = []\<rparr>,
       attachments = []\<rparr>"
proof -
  have e: "create_document_chunks (\<lambda>s. Inl (ValueError s)) (sync_zotero_items (Inr ([] @ []))) = Inr []"
    by (simp add: sync_zotero_items_eq create_document_chunks_def)
  have s: "py_strip ''LIGO report'' \<noteq> []" by code_simp
  from e s
    is_valid_item_iff [of "\<lparr>item_key = Some ''W1'',
       item_data = \<lparr>itemType = Some ''webpage'', data_title = Some ''LIGO news'',
                    data_url = Some ''https://www.ligo.org/news'', data_date = Some ''2024-03-01'',
                    abstractNote = None, creators = []\<rparr>,
       attachments = []\<rparr>" "[]" "[]" "\<lambda>s. Inl (ValueError s)"]
    is_valid_item_iff [of "\<lparr>item_key = Some ''A1'',
       item_data = \<lparr>itemType = Some ''report'', data_title = Some ''LIGO report'',
                    data_url = Some ''https://www.ligo.org/report'', data_date = None,
                    abstractNote = None, creators = []\<rparr>,
       attachments = []\<rparr>" "[]" "[]" "\<lambda>s. Inl (ValueError s)"]
  show ?thesis by (simp add: get_str_def)
qed

lemma make_chunk_fields:
  "make_chunk unicode_int item = Inr chunk \<Longrightarrow>
     chunk_index chunk = 0 \<and> source chunk = ''Zotero'' \<and> chunk_id chunk = ''zotero-'' @ item_id item"
  by (auto simp: make_chunk_def Let_def split: if_splits sum.splits)

lemma make_chunk_numeric:
  assumes "item_year item = PyNone \<or>
           (\<exists>y. item_year item = PyStr y \<and>
              (y = [] \<or> (decimal_numeral y \<and> length y \<le> 4300) \<or> is_int_literal y))"
  shows "\<exists>chunk. make_chunk unicode_int item = Inr chunk"
proof -
  consider (none) "item_year item = PyNone"
    | (empty) "item_year item = PyStr []"
    | (literal) y where "item_year item = PyStr y" "y \<noteq> []" "is_int_literal y"
    using assms numeral_literal by blast
  then show ?thesis
  proof cases
    case none
    then show ?thesis by (simp add: make_chunk_def Let_def)
  next
    case empty
    then show ?thesis by (simp add: make_chunk_def Let_def)
  next
    case literal
    from literal(3) obtain n where "py_int unicode_int y = Inr n"
      using py_int_literal by blast
    with literal(1,2) show ?thesis by (simp add: make_chunk_def Let_def)
  qed
qed

lemma make_chunk_raises:
  assumes "item_year item = PyStr y" and "y \<noteq> []" and "is_ascii y" and "\<not> is_int_literal y"
  shows "make_chunk unicode_int item = Inl (ValueError y)"
proof -
  have "py_int unicode_int y = Inl (ValueError y)" using assms(3,4) by (rule py_int_raises)
  with assms(1,2) show ?thesis by (simp add: make_chunk_def Let_def)
qed

lemma chunks_loop_ok:
  "\<forall>item\<in>set items. \<exists>chunk. make_chunk unicode_int item = Inr chunk \<Longrightarrow>
   chunks_loop unicode_int acc items =
     Inr (acc @ map (\<lambda>item. projr (make_chunk unicode_int item)) items)"
  by (induction items arbitrary: acc) auto

lemma chunks_loop_raises:
  "\<exists>item\<in>set items. \<exists>e. make_chunk unicode_int item = Inl e \<Longrightarrow>
   \<exists>e. chunks_loop unicode_int acc items = Inl e"
proof (induction items arbitrary: acc)
  case Nil
  then show ?case by simp
next
  case (Cons item items)
  show ?case
  proof (cases "make_chunk unicode_int item")
    case (Inl e)
    then show ?thesis by simp
  next
    case (Inr chunk)
    with Cons.prems have "\<exists>item\<in>set items. \<exists>e. make_chunk unicode_int item = Inl e" by auto
    then have "\<exists>e. chunks_loop unicode_int (acc @ [chunk]) items = Inl e" by (rule Cons.IH)
    with Inr show ?thesis by simp
  qed
qed

lemma long_numeral: "decimal_numeral (replicate 4301 CHR ''1'')"
  by (simp add: decimal_numeral_def)

text \<open>
  Claim C10, as it is stated, says that an item whose year is a decimal numeral gives
  a chunk. \<^verbatim>\<open>int\<close> reads at most 4300 digits: an accepted item whose date is a
  numeral of 4301 digits keeps it as its year, the conversion raises
  \<^verbatim>\<open>ValueError\<close>, and the batch gives no chunk.
\<close>

theorem long_year_counterexample:
  "is_valid_item
     \<lparr>item_key = Some ''K3'',
        item_data = \<lparr>itemType = Some ''report'', data_title = Some ''Run notes'',
                     data_url = Some ''https://www.ligo.org/notes'',
                     data_date = Some (replicate 4301 CHR ''1''),
                     abstractNote = None, creators = []\<rparr>,
        attachments = []\<rparr> \<and>
   decimal_numeral (replicate 4301 CHR ''1'') \<and>
   item_year (projr (process_zotero_item
     \<lparr>item_key = Some ''K3'',
        item_data = \<lparr>itemType = Some ''report'', data_title = Some ''Run notes'',
                     data_url = Some ''https://www.ligo.org/notes'',
                     data_date = Some (replicate 4301 CHR ''1''),
                     abstractNote = None, creators = []\<rparr>,
        attachments = []\<rparr>)) = PyStr (replicate 4301 CHR ''1'') \<and>
   create_document_chunks (\<lambda>s. Inl (ValueError s)) (sync_zotero_items (Inr
     [\<lparr>item_key = Some ''K3'',
        item_data = \<lparr>itemType = Some ''report'', data_title = Some ''Run notes'',
                     data_url = Some ''https://www.ligo.org/notes'',
                     data_date = Some (replicate 4301 CHR ''1''),
                     abstractNote = None, creators = []\<rparr>,
        attachments = []\<rparr>])) =
   Inl (ValueError (replicate 4301 CHR ''1''))"
proof -
  have s: "py_strip ''Run notes'' \<noteq> []" by code_simp
  have v: "is_valid_item
     \<lparr>item_key = Some ''K3'',
        item_data = \<lparr>itemType = Some ''report'', data_title = Some ''Run notes'',
                     data_url = Some ''https://www.ligo.org/notes'',
                     data_date = Some (replicate 4301 CHR ''1''),
                     abstractNote = None, creators = []\<rparr>,
        attachments = []\<rparr>"
    by (simp add: is_valid_item_def Let_def get_str_def valid_types_def s)
  have t: "takeWhile (\<lambda>c. c \<noteq> CHR ''-'') (replicate 4301 CHR ''1'') = replicate 4301 CHR ''1''"
    by (simp add: takeWhile_replicate)
  have y: "item_year (projr (process_zotero_item
     \<lparr>item_key = Some ''K3'',
        item_data = \<lparr>itemType = Some ''report'', data_title = Some ''Run notes'',
                     data_url = Some ''https://www.ligo.org/notes'',
                     data_date = Some (replicate 4301 CHR ''1''),
                     abstractNote = None, creators = []\<rparr>,
        attachments = []\<rparr>)) = PyStr (replicate 4301 CHR ''1'')"
    by (simp add: process_zotero_item_eq get_str_def t)
  have i: "py_int (\<lambda>s. Inl (ValueError s)) (replicate 4301 CHR ''1'') =
      Inl (ValueError (replicate 4301 CHR ''1''))"
    using long_numeral by (rule long_numeral_raises) simp
  have c: "create_document_chunks (\<lambda>s. Inl (ValueError s)) (sync_zotero_items (Inr
     [\<lparr>item_key = Some ''K3'',
        item_data = \<lparr>itemType = Some ''report'', data_title = Some ''Run notes'',
                     data_url = Some ''https://www.ligo.org/notes'',
                     data_date = Some (replicate 4301 CHR ''1''),
                     abstractNote = None, creators = []\<rparr>,
        attachments = []\<rparr>])) =
     Inl (ValueError (replicate 4301 CHR ''1''))"
    by (simp add: sync_zotero_items_eq v process_zotero_item_eq get_str_def t i
        create_document_chunks_def make_chunk_def Let_def)
  from v long_numeral y c show ?thesis by blast
qed

text \<open>
  Claim C10, amended. The year of a processed item is the text of the date before the
  first \<^verbatim>\<open>-\<close>, and \<^verbatim>\<open>None\<close> when the item has no date or an empty one.
  \<^verbatim>\<open>create_document_chunks\<close> converts it with \<^verbatim>\<open>int\<close>. When every item of
  the batch has no year, an empty year, a decimal numeral of at most 4300 digits or,
  more generally, an integer literal, each item gives exactly one chunk, in order,
  with \<^verbatim>\<open>chunk_index = 0\<close> and \<^verbatim>\<open>source = "Zotero"\<close>. When one item has a
  year that is a non-empty ASCII text and not an integer literal (as
  \<^verbatim>\<open>"March 2024"\<close>, \<^verbatim>\<open>" "\<close>, \<^verbatim>\<open>"+"\<close>, or a numeral of more than 4300
  digits), the conversion raises and the batch gives no chunk.
\<close>

theorem year_normalisation:
  "(\<exists>p. process_zotero_item item = Inr p \<and>
        item_year p =
          (if get_str (data_date (item_data item)) = [] then PyNone
           else PyStr (takeWhile (\<lambda>c. c \<noteq> CHR ''-'') (get_str (data_date (item_data item)))))) \<and>
   ((\<forall>p\<in>set items. item_year p = PyNone \<or>
        (\<exists>y. item_year p = PyStr y \<and>
           (y = [] \<or> (decimal_numeral y \<and> length y \<le> 4300) \<or> is_int_literal y))) \<longrightarrow>
      (\<exists>chunks. create_document_chunks unicode_int items = Inr chunks \<and>
         length chunks = length items \<and>
         map chunk_id chunks = map (\<lambda>p. ''zotero-'' @ item_id p) items \<and>
         (\<forall>chunk\<in>set chunks. chunk_index chunk = 0 \<and> source chunk = ''Zotero''))) \<and>
   ((\<exists>p\<in>set items. \<exists>y. item_year p = PyStr y \<and> y \<noteq> [] \<and> is_ascii y \<and>
        \<not> is_int_literal y) \<longrightarrow>
      (\<exists>e. create_document_chunks unicode_int items = Inl e))"
proof (intro conjI impI)
  show "\<exists>p. process_zotero_item item = Inr p \<and>
        item_year p =
          (if get_str (data_date (item_data item)) = [] then PyNone
           else PyStr (takeWhile (\<lambda>c. c \<noteq> CHR ''-'') (get_str (data_date (item_data item)))))"
    by (simp add: process_zotero_item_eq)
next
  assume "\<forall>p\<in>set items. item_year p = PyNone \<or>
        (\<exists>y. item_year p = PyStr y \<and>
           (y = [] \<or> (decimal_numeral y \<and> length y \<le> 4300) \<or> is_int_literal y))"
  then have ok: "\<forall>p\<in>set items. \<exists>chunk. make_chunk unicode_int p = Inr chunk"
    using make_chunk_numeric by blast
  then have eq: "create_document_chunks unicode_int items =
      Inr (map (\<lambda>p. projr (make_chunk unicode_int p)) items)"
    by (simp add: create_document_chunks_def chunks_loop_ok)
  have fields: "\<forall>p\<in>set items. chunk_index (projr (make_chunk unicode_int p)) = 0 \<and>
      source (projr (make_chunk unicode_int p)) = ''Zotero'' \<and>
      chunk_id (projr (make_chunk unicode_int p)) = ''zotero-'' @ item_id p"
  proof
    fix p assume "p \<in> set items"
    with ok obtain chunk where "make_chunk unicode_int p = Inr chunk" by blast
    then show "chunk_index (projr (make_chunk unicode_int p)) = 0 \<and>
      source (projr (make_chunk unicode_int p)) = ''Zotero'' \<and>
      chunk_id (projr (make_chunk unicode_int p)) = ''zotero-'' @ item_id p"
      using make_chunk_fields by fastforce
  qed
  show "\<exists>chunks. create_document_chunks unicode_int items = Inr chunks \<and>
         length chunks = length items \<and>
         map chunk_id chunks = map (\<lambda>p. ''zotero-'' @ item_id p) items \<and>
         (\<forall>chunk\<in>set chunks. chunk_index chunk = 0 \<and> source chunk = ''Zotero'')"
    using eq fields by auto
next
  assume "\<exists>p\<in>set items. \<exists>y. item_year p = PyStr y \<and> y \<noteq> [] \<and> is_ascii y \<and>
        \<not> is_int_literal y"
  then have "\<exists>p\<in>set items. \<exists>e. make_chunk unicode_int p = Inl e"
    using make_chunk_raises by blast
  then show "\<exists>e. create_document_chunks unicode_int items = Inl e"
    unfolding create_document_chunks_def by (rule chunks_loop_raises)
qed

text \<open>Texts that are no integer literals, and one that is.\<close>

lemma not_literal_examples:
  "is_ascii ''March 2024'' \<and> \<not> is_int_literal ''March 2024''"
  "is_ascii '' '' \<and> \<not> is_int_literal '' ''"
  "is_ascii ''+'' \<and> \<not> is_int_literal ''+''"
proof -
  have a: "is_ascii ''March 2024''" "is_ascii '' ''" "is_ascii ''+''" by code_simp+
  have "py_int (\<lambda>s. Inr 0) ''March 2024'' = Inl (ValueError ''March 2024'')" by code_simp
  then have "\<not> is_int_literal ''March 2024''"
    using py_int_iff [OF a(1), of "\<lambda>s. Inr 0"] by auto
  moreover have "py_int (\<lambda>s. Inr 0) '' '' = Inl (ValueError '' '')" by code_simp
  then have "\<not> is_int_literal '' ''"
    using py_int_iff [OF a(2), of "\<lambda>s. Inr 0"] by auto
  moreover have "py_int (\<lambda>s. Inr 0) ''+'' = Inl (ValueError ''+'')" by code_simp
  then have "\<not> is_int_literal ''+''"
    using py_int_iff [OF a(3), of "\<lambda>s. Inr 0"] by auto
  ultimately show "is_ascii ''March 2024'' \<and> \<not> is_int_literal ''March 2024''"
    "is_ascii '' '' \<and> \<not> is_int_literal '' ''"
    "is_ascii ''+'' \<and> \<not> is_int_literal ''+''"
    using a by simp_all
qed

lemma literal_example: "decimal_numeral ''2024'' \<and> length ''2024'' \<le> 4300"
  by (simp add: decimal_numeral_def)

text \<open>
  An item dated \<^verbatim>\<open>"March 2024"\<close> keeps that text as its year and makes the
  batch fail; a processed item with the year \<^verbatim>\<open>"2024"\<close> gives one chunk.
\<close>

theorem year_normalisation_witness:
  "item_year (projr (process_zotero_item
       \<lparr>item_key = Some ''K1'',
        item_data = \<lparr>itemType = Some ''report'', data_title = Some ''Run notes'',
                     data_url = Some ''https://www.ligo.org/notes'', data_date = Some ''March 2024'',
                     abstractNote = None, creators = []\<rparr>,
        attachments = []\<rparr>)) = PyStr ''March 2024'' \<and>
   (\<exists>p\<in>set [\<lparr>item_id = ''K1'', item_title = ''Run notes'', item_authors = ''Unknown'',
        item_year = PyStr ''March 2024'', item_url = ''https://www.ligo.org/notes'', item_abstract = [],
        item_type = ''report'', item_source = ''Zotero'', raw_data = None\<rparr>].
      \<exists>y. item_year p = PyStr y \<and> y \<noteq> [] \<and> is_ascii y \<and> \<not> is_int_literal y) \<and>
   (\<exists>e. create_document_chunks (\<lambda>s. Inl (ValueError s))
       [\<lparr>item_id = ''K1'', item_title = ''Run notes'', item_authors = ''Unknown'',
        item_year = PyStr ''March 2024'', item_url = ''https://www.ligo.org/notes'', item_abstract = [],
        item_type = ''report'', item_source = ''Zotero'', raw_data = None\<rparr>] = Inl e) \<and>
   (\<exists>y. item_year \<lparr>item_id = ''K2'', item_title = ''Run notes'', item_authors = ''Unknown'',
        item_year = PyStr ''2024'', item_url = ''https://www.ligo.org/notes'', item_abstract = [],
        item_type = ''report'', item_source = ''Zotero'', raw_data = None\<rparr> = PyStr y \<and>
      decimal_numeral y \<and> length y \<le> 4300) \<and>
   (\<exists>chunks. create_document_chunks (\<lambda>s. Inl (ValueError s))
       [\<lparr>item_id = ''K2'', item_title = ''Run notes'', item_authors = ''Unknown'',
        item_year = PyStr ''2024'', item_url = ''https://www.ligo.org/notes'', item_abstract = [],
        item_type = ''report'', item_source = ''Zotero'', raw_data = None\<rparr>] = Inr chunks \<and>
      length chunks = 1 \<and> map chunk_id chunks = [''zotero-K2''] \<and>
      (\<forall>chunk\<in>set chunks. chunk_index chunk = 0 \<and> source chunk = ''Zotero''))"
proof -
  have t: "takeWhile (\<lambda>c. c \<noteq> CHR ''-'') ''March 2024'' = ''March 2024''"
    by simp
  have hM: "\<exists>p\<in>set [\<lparr>item_id = ''K1'', item_title = ''Run notes'', item_authors = ''Unknown'',
        item_year = PyStr ''March 2024'', item_url = ''https://www.ligo.org/notes'', item_abstract = [],
        item_type = ''report'', item_source = ''Zotero'', raw_data = None\<rparr>].
      \<exists>y. item_year p = PyStr y \<and> y \<noteq> [] \<and> is_ascii y \<and> \<not> is_int_literal y"
    using not_literal_examples(1) by simp
  have dN: "\<exists>y. item_year \<lparr>item_id = ''K2'', item_title = ''Run notes'', item_authors = ''Unknown'',
        item_year = PyStr ''2024'', item_url = ''https://www.ligo.org/notes'', item_abstract = [],
        item_type = ''report'', item_source = ''Zotero'', raw_data = None\<rparr> = PyStr y \<and>
      decimal_numeral y \<and> length y \<le> 4300"
    using literal_example by simp
  then have hN: "\<forall>p\<in>set [\<lparr>item_id = ''K2'', item_title = ''Run notes'', item_authors = ''Unknown'',
        item_year = PyStr ''2024'', item_url = ''https://www.ligo.org/notes'', item_abstract = [],
        item_type = ''report'', item_source = ''Zotero'', raw_data = None\<rparr>].
      item_year p = PyNone \<or>
      (\<exists>y. item_year p = PyStr y \<and>
         (y = [] \<or> (decimal_numeral y \<and> length y \<le> 4300) \<or> is_int_literal y))"
    by simp
  from year_normalisation
    [of "\<lparr>item_key = Some ''K1'',
        item_data = \<lparr>itemType = Some ''report'', data_title = Some ''Run notes'',
                     data_url = Some ''https://www.ligo.org/notes'', data_date = Some ''March 2024'',
                     abstractNote = None, creators = []\<rparr>,
        attachments = []\<rparr>"
        "[\<lparr>item_id = ''K1'', item_title = ''Run notes'', item_authors = ''Unknown'',
        item_year = PyStr ''March 2024'', item_url = ''https://www.ligo.org/notes'', item_abstract = [],
        item_type = ''report'', item_source = ''Zotero'', raw_data = None\<rparr>]"
        "\<lambda>s. Inl (ValueError s)"] hM
  have cM: "item_year (projr (process_zotero_item
       \<lparr>item_key = Some ''K1'',
        item_data = \<lparr>itemType = Some ''report'', data_title = Some ''Run notes'',
                     data_url = Some ''https://www.ligo.org/notes'', data_date = Some ''March 2024'',
                     abstractNote = None, creators = []\<rparr>,
        attachments = []\<rparr>)) = PyStr ''March 2024'' \<and>
     (\<exists>e. create_document_chunks (\<lambda>s. Inl (ValueError s))
       [\<lparr>item_id = ''K1'', item_title = ''Run notes'', item_authors = ''Unknown'',
        item_year = PyStr ''March 2024'', item_url = ''https://www.ligo.org/notes'', item_abstract = [],
        item_type = ''report'', item_source = ''Zotero'', raw_data = None\<rparr>] = Inl e)"
    by (auto simp: get_str_def t)
  note rN = year_normalisation
    [of "\<lparr>item_key = Some ''K1'',
        item_data = \<lparr>itemType = Some ''report'', data_title = Some ''Run notes'',
                     data_url = Some ''https://www.ligo.org/notes'', data_date = Some ''March 2024'',
                     abstractNote = None, creators = []\<rparr>,
        attachments = []\<rparr>"
        "[\<lparr>item_id = ''K2'', item_title = ''Run notes'', item_authors = ''Unknown'',
        item_year = PyStr ''2024'', item_url = ''https://www.ligo.org/notes'', item_abstract = [],
        item_type = ''report'', item_source = ''Zotero'', raw_data = None\<rparr>]"
        "\<lambda>s. Inl (ValueError s)",
     THEN conjunct2, THEN conjunct1, THEN mp, OF hN]
  have cN: "\<exists>chunks. create_document_chunks (\<lambda>s. Inl (ValueError s))
       [\<lparr>item_id = ''K2'', item_title = ''Run notes'', item_authors = ''Unknown'',
        item_year = PyStr ''2024'', item_url = ''https://www.ligo.org/notes'', item_abstract = [],
        item_type = ''report'', item_source = ''Zotero'', raw_data = None\<rparr>] = Inr chunks \<and>
      length chunks = 1 \<and> map chunk_id chunks = [''zotero-K2''] \<and>
      (\<forall>chunk\<in>set chunks. chunk_index chunk = 0 \<and> source chunk = ''Zotero'')"
    using rN by simp
  from cM hM dN cN show ?thesis by blast
qed

section \<open>Properties of app/generator.py\<close>

lemma after_marker_iff: "after_marker m s \<noteq> None \<longleftrightarrow> py_in m s"
  by (induction s) auto

text \<open>A split at a non-empty separator, piece by piece.\<close>

lemma split_sep_acc_unfold:
  "sep \<noteq> [] \<Longrightarrow>
   split_sep_acc sep cur s =
     (cur @ before_marker sep s) #
     (case after_marker sep s of None \<Rightarrow> [] | Some rest \<Rightarrow> split_sep_acc sep [] rest)"
  by (induction sep cur s rule: split_sep_acc.induct) auto

lemma split_sep_acc_second:
  assumes "sep \<noteq> []" and "after_marker sep s = Some rest"
  shows "py_index (split_sep_acc sep cur s) 1 = Inr (before_marker sep rest)"
proof -
  have "split_sep_acc sep cur s = (cur @ before_marker sep s) # split_sep_acc sep [] rest"
    using assms split_sep_acc_unfold [of sep cur s] by simp
  moreover have "split_sep_acc sep [] rest =
      before_marker sep rest #
      (case after_marker sep rest of None \<Rightarrow> [] | Some r \<Rightarrow> split_sep_acc sep [] r)"
    using assms(1) split_sep_acc_unfold [of sep "[]" rest] by simp
  ultimately show ?thesis by (simp add: py_index_def)
qed

lemma extract_question_eq:
  "extract_question user_prompt =
     Inr (case after_marker ''Question:'' user_prompt of
            None \<Rightarrow> ''your question''
          | Some rest \<Rightarrow>
              py_strip (takeWhile (\<lambda>c. c \<noteq> CHR 0x0A) (before_marker ''Question:'' rest)))"
proof (cases "after_marker ''Question:'' user_prompt")
  case None
  then have "\<not> py_in ''Question:'' user_prompt" using after_marker_iff by blast
  with None show ?thesis by (simp add: extract_question_def)
next
  case (Some rest)
  then have "py_in ''Question:'' user_prompt" using after_marker_iff by fastforce
  moreover have "py_index (py_split_sep ''Question:'' user_prompt) 1 =
      Inr (before_marker ''Question:'' rest)"
    unfolding py_split_sep_def using Some by (intro split_sep_acc_second) simp_all
  moreover have "py_index (py_split_sep ''\<newline>'' (before_marker ''Question:'' rest)) 0 =
      Inr (takeWhile (\<lambda>c. c \<noteq> CHR 0x0A) (before_marker ''Question:'' rest))"
    by (rule py_index_split_char)
  ultimately show ?thesis using Some by (simp add: extract_question_def)
qed

lemma lookup_response_find:
  "lookup_response table q ql =
     (case find (\<lambda>(keyword, response). py_in keyword ql) table of
        None \<Rightarrow> specific_answer q
      | Some (keyword, response) \<Rightarrow> canned_answer response)"
  by (induction table) auto

text \<open>
  The fallback answer, for every prompt: the question is cut at the first line break
  or at the second marker, whichever comes first, and stripped; the keys are tried in
  the order of the table. The call never raises.
\<close>

lemma get_mock_response_eq:
  "get_mock_response user_prompt =
     Inr (let q = (case after_marker ''Question:'' user_prompt of
                     None \<Rightarrow> ''your question''
                   | Some rest \<Rightarrow>
                       py_strip (takeWhile (\<lambda>c. c \<noteq> CHR 0x0A)
                                   (before_marker ''Question:'' rest)))
          in case find (\<lambda>(keyword, response). \<exists>a b. py_lower q = a @ keyword @ b)
                    mock_responses of
               None \<Rightarrow> specific_answer q
             | Some (keyword, response) \<Rightarrow> canned_answer response)"
  by (simp add: get_mock_response_def extract_question_eq lookup_response_find Let_def
      py_in_iff)

text \<open>
  Cutting at a marker changes nothing in the first line when the first line holds no
  marker.
\<close>

lemma takeWhile_before_marker:
  assumes "\<forall>c\<in>set m. P c" and "\<not> py_in m (takeWhile P s)"
  shows "takeWhile P (before_marker m s) = takeWhile P s"
  using assms(2)
proof (induction s)
  case Nil
  show ?case by simp
next
  case (Cons c cs)
  have no: "\<not> startswith (c # cs) m"
  proof
    assume "startswith (c # cs) m"
    then obtain b where b: "c # cs = m @ b" using startswith_iff by blast
    have "takeWhile P (m @ b) = m @ takeWhile P b"
      by (rule takeWhile_append2) (use assms(1) in blast)
    with b have "takeWhile P (c # cs) = [] @ m @ takeWhile P b" by simp
    then have "py_in m (takeWhile P (c # cs))" using py_in_iff by blast
    with Cons.prems show False by blast
  qed
  show ?case
  proof (cases "P c")
    case True
    have "\<not> py_in m (takeWhile P cs)"
    proof
      assume "py_in m (takeWhile P cs)"
      then obtain a b where "takeWhile P cs = a @ m @ b" using py_in_iff by blast
      with True have "takeWhile P (c # cs) = (c # a) @ m @ b" by simp
      then have "py_in m (takeWhile P (c # cs))" using py_in_iff by blast
      with Cons.prems show False by blast
    qed
    then have "takeWhile P (before_marker m cs) = takeWhile P cs" by (rule Cons.IH)
    with no True show ?thesis by simp
  next
    case False
    with no show ?thesis by simp
  qed
qed

text \<open>
  When the text between the first marker and the line break holds no second marker,
  the question of the code is the question of the specification, stripped.
\<close>

lemma extract_question_single_marker:
  assumes "after_marker ''Question:'' user_prompt = Some rest"
    and "\<not> py_in ''Question:'' (takeWhile (\<lambda>c. c \<noteq> CHR 0x0A) rest)"
  shows "extract_question user_prompt = Inr (py_strip (spec_extract_question user_prompt))"
proof -
  have "takeWhile (\<lambda>c. c \<noteq> CHR 0x0A) (before_marker ''Question:'' rest) =
      takeWhile (\<lambda>c. c \<noteq> CHR 0x0A) rest"
    by (rule takeWhile_before_marker) (use assms(2) in simp_all)
  with assms(1) show ?thesis by (simp add: extract_question_eq spec_extract_question_def)
qed

lemma extract_question_no_marker:
  assumes "after_marker ''Question:'' user_prompt = None"
  shows "extract_question user_prompt = Inr (spec_extract_question user_prompt)"
  using assms by (simp add: extract_question_eq spec_extract_question_def)

lemma extract_question_second_marker:
  "extract_question (''Question: Question:'' @ q) = Inr []"
proof -
  have a: "after_marker ''Question:'' (''Question: Question:'' @ q) = Some ('' Question:'' @ q)"
    by simp
  have b: "before_marker ''Question:'' ('' Question:'' @ q) = '' ''"
    by simp
  have s: "py_strip '' '' = []" by code_simp
  show ?thesis by (simp only: extract_question_eq a b option.case) (simp add: s)
qed

lemma generic_not_canned:
  "lookup_response mock_responses [] (py_lower []) = specific_answer [] \<and>
   \<not> list_ex (\<lambda>(keyword, response). specific_answer [] = canned_answer response)
        mock_responses"
  by code_simp

text \<open>
  Claim C6 says that the question is the text after the marker
  \<^verbatim>\<open>"Question:"\<close> up to the next line break, and that a key found in it
  gives a canned answer. The code takes the second piece of
  \<^verbatim>\<open>user_prompt.split("Question:")\<close>, which ends at the second marker: for a
  question that itself begins with \<^verbatim>\<open>Question:\<close>, whatever follows, the
  extracted question is empty and the answer is the generic one, echoing an empty
  question. For \<^verbatim>\<open>"Question: Question: what is ligo"\<close> the text up to the
  line break is \<^verbatim>\<open>" Question: what is ligo"\<close>, which contains the key
  \<^verbatim>\<open>ligo\<close>, and the answer of the code is none of the canned answers.
\<close>

theorem get_mock_response_second_marker:
  "get_mock_response (''Question: Question:'' @ q) = Inr (specific_answer []) \<and>
   spec_extract_question ''Question: Question: what is ligo'' = '' Question: what is ligo'' \<and>
   py_in ''ligo'' (py_lower (spec_extract_question ''Question: Question: what is ligo'')) \<and>
   get_mock_response ''Question: Question: what is ligo'' = Inr (specific_answer []) \<and>
   \<not> list_ex (\<lambda>(keyword, response).
          get_mock_response ''Question: Question: what is ligo'' = Inr (canned_answer response))
        mock_responses"
proof -
  have g: "get_mock_response (''Question: Question:'' @ q) = Inr (specific_answer [])" for q
    using generic_not_canned
    by (simp only: get_mock_response_def extract_question_second_marker sum.case)
  have e: "spec_extract_question ''Question: Question: what is ligo'' = '' Question: what is ligo''"
    by code_simp
  have i: "py_in ''ligo'' (py_lower '' Question: what is ligo'')" by code_simp
  have c: "get_mock_response ''Question: Question: what is ligo'' = Inr (specific_answer [])"
    using g [of "'' what is ligo''"] by simp
  have n: "\<not> list_ex (\<lambda>(keyword, response).
          get_mock_response ''Question: Question: what is ligo'' = Inr (canned_answer response))
        mock_responses"
    using generic_not_canned unfolding c by simp
  from g e i c n show ?thesis by simp
qed

text \<open>
  The prompt of the generator's test has one marker: the question is
  \<^verbatim>\<open>What is LIGO?\<close> and the key \<^verbatim>\<open>ligo\<close> is found.
\<close>

lemma get_mock_response_test_prompt:
  "get_mock_response ''Question: What is LIGO?\<newline>\<newline>Context: LIGO is a gravitational wave detector.'' =
     Inr (canned_answer (snd (hd mock_responses)))"
  by code_simp

end
